theory Spec2Isabelle
  imports Complex_Main "HOL-Library.Sublist"
begin

section \<open>Data of the two scripts\<close>

text \<open>
  The scripts read the platform through \<^verbatim>\<open>platform.system()\<close>,
  \<^verbatim>\<open>platform.machine()\<close>, \<^verbatim>\<open>torch.backends.mps.is_available()\<close> and
  \<^verbatim>\<open>torch.cuda.is_available()\<close>; the answers of these calls are the fields of
  \<open>platform_facts\<close>.
\<close>

record platform_facts =
  system :: string
  machine :: string
  mps_is_available :: bool
  cuda_is_available :: bool

text \<open>The dictionary returned by \<^verbatim>\<open>get_device_info\<close> has the same five keys on every path.\<close>

record device_info =
  device :: string
  bf16 :: bool
  fp16 :: bool
  default_batch_size :: int
  gradient_checkpointing :: bool

text \<open>
  A raw example is a dictionary from column names to strings (the three columns of
  sql-create-context are strings). A message is a dictionary with the keys \<open>role\<close> and
  \<open>content\<close>; \<^verbatim>\<open>format_for_sft\<close> returns a dictionary with the keys \<open>prompt\<close> and
  \<open>completion\<close>, \<^verbatim>\<open>to_chat_format\<close> one with the key \<open>messages\<close>.
\<close>

type_synonym example = "string \<rightharpoonup> string"

record message =
  role :: string
  content :: string

record sft_example =
  prompt :: "message list"
  completion :: "message list"

record chat_example =
  messages :: "message list"

text \<open>
  The local JSON document: \<^verbatim>\<open>data["rows"]\<close> is a list of dictionaries, and
  \<^verbatim>\<open>row["row"]\<close> of each is a raw example.
\<close>

type_synonym document = "string \<rightharpoonup> (string \<rightharpoonup> example) list"

text \<open>
  A row of the dataset of finetune\_sql.py: a record of the JSONL input, kept as parsed, or
  a formatted example.
\<close>

datatype 'r sft_row = Messages 'r | PromptCompletion sft_example

text \<open>The options of finetune\_sql.py as \<^verbatim>\<open>parse_args\<close> returns them.\<close>

record sql_args =
  epochs :: int
  batch_size :: int
  lr :: real
  output_dir :: string
  max_samples :: "int option"
  input :: "string option"
  use_hf :: bool
  model :: string
  eval_split :: real
  no_gguf :: bool
  gguf_type :: string

text \<open>The keyword arguments of the call of \<^verbatim>\<open>SFTConfig\<close>.\<close>

record sft_config =
  output_dir :: string
  num_train_epochs :: int
  per_device_train_batch_size :: int
  per_device_eval_batch_size :: int
  gradient_accumulation_steps :: int
  gradient_checkpointing :: bool
  learning_rate :: real
  bf16 :: bool
  fp16 :: bool
  logging_steps :: int
  save_strategy :: string
  eval_strategy :: string
  max_length :: int
  warmup_ratio :: real
  lr_scheduler_type :: string
  report_to :: string
  dataloader_pin_memory :: bool

text \<open>A finished child process: the lines of its two pipes and its return code.\<close>

record process =
  proc_stdout :: "string list"
  proc_stderr :: "string list"
  returncode :: int

section \<open>Python values, exceptions and output\<close>

text \<open>
  Exceptions are values. \<open>CalledProcessError\<close> carries the return code and the command,
  \<open>SystemExit\<close> the exit status; the other constructors carry a message. In Python's class
  hierarchy \<open>CalledProcessError\<close> derives from \<open>SubprocessError\<close>, which derives from
  \<open>Exception\<close>; \<open>FileNotFoundError\<close> derives from \<open>OSError\<close>; \<open>KeyError\<close> and
  \<open>IndexError\<close> from \<open>LookupError\<close>. Of the classes below only \<open>RuntimeError\<close> is an
  instance of \<open>RuntimeError\<close>.
\<close>

datatype py_exception =
    KeyError string
  | IndexError string
  | ValueError string
  | OSError string
  | FileNotFoundError string
  | CalledProcessError int "string list"
  | RuntimeError string
  | SystemExit int

text \<open>
  The exit status of the interpreter: 0 when \<^verbatim>\<open>main\<close> returns, the argument of
  \<^verbatim>\<open>sys.exit\<close> when \<open>SystemExit\<close> reaches the top, 1 for every other exception
  that is not caught.
\<close>

fun exit_code :: "py_exception + 'a \<Rightarrow> int" where
  "exit_code (Inr v) = 0"
| "exit_code (Inl (SystemExit n)) = n"
| "exit_code (Inl e) = 1"

text \<open>
  What a run does to the outside is kept in the state: the chunks written to standard
  output and to standard error, and the trace of the calls that touch files, the network,
  child processes or the trainer.
\<close>

datatype effect =
    ReadFile string
  | WriteFile string "string list"
  | MakeDirs string
  | Download string string
  | HubLoad string
  | Spawn "string list"
  | CreateTrainer string sft_config
  | Train
  | SaveModel string
  | SavePretrained string

record run_state =
  stdout :: "string list"
  stderr :: "string list"
  effects :: "effect list"

type_synonym 'a prog = "run_state \<Rightarrow> (py_exception + 'a) \<times> run_state"

definition return :: "'a \<Rightarrow> 'a prog" where
  "return v = (\<lambda>s. (Inr v, s))"

definition raise :: "py_exception \<Rightarrow> 'a prog" where
  "raise e = (\<lambda>s. (Inl e, s))"

text \<open>A library call that raises or returns and leaves no trace.\<close>

definition lift :: "py_exception + 'a \<Rightarrow> 'a prog" where
  "lift r = (\<lambda>s. (r, s))"

text \<open>Sequencing: an exception of the first statement skips the rest.\<close>

definition bind :: "'a prog \<Rightarrow> ('a \<Rightarrow> 'b prog) \<Rightarrow> 'b prog" where
  "bind m k = (\<lambda>s. case m s of (Inl e, s') \<Rightarrow> (Inl e, s') | (Inr v, s') \<Rightarrow> k v s')"

definition seq :: "unit prog \<Rightarrow> 'b prog \<Rightarrow> 'b prog" where
  "seq m k = bind m (\<lambda>u. k)"

text \<open>
  \<^verbatim>\<open>try: body except RuntimeError as e: handler\<close>: only an instance of
  \<open>RuntimeError\<close> is handled, and the handler gets its message (\<^verbatim>\<open>str(e)\<close>); every
  other exception propagates.
\<close>

definition try_except_RuntimeError :: "'a prog \<Rightarrow> (string \<Rightarrow> 'a prog) \<Rightarrow> 'a prog" where
  "try_except_RuntimeError body handler =
     (\<lambda>s. case body s of
            (Inl (RuntimeError msg), s') \<Rightarrow> handler msg s'
          | (Inl e, s') \<Rightarrow> (Inl e, s')
          | (Inr v, s') \<Rightarrow> (Inr v, s'))"

definition newline :: string where
  "newline = [CHR 0x0A]"

text \<open>\<^verbatim>\<open>print(x)\<close> writes the text and a newline to standard output.\<close>

definition print :: "string \<Rightarrow> unit prog" where
  "print x = (\<lambda>s. (Inr (), s\<lparr>stdout := stdout s @ [x @ newline]\<rparr>))"

text \<open>\<^verbatim>\<open>print(line, end="")\<close> and \<^verbatim>\<open>print(line, end="", file=sys.stderr)\<close>.\<close>

definition print_end_empty :: "string \<Rightarrow> unit prog" where
  "print_end_empty x = (\<lambda>s. (Inr (), s\<lparr>stdout := stdout s @ [x]\<rparr>))"

definition print_end_empty_stderr :: "string \<Rightarrow> unit prog" where
  "print_end_empty_stderr x = (\<lambda>s. (Inr (), s\<lparr>stderr := stderr s @ [x]\<rparr>))"

text \<open>A run of consecutive \<^verbatim>\<open>print\<close> statements.\<close>

fun prints :: "string list \<Rightarrow> unit prog" where
  "prints [] = return ()"
| "prints (x # xs) = seq (print x) (prints xs)"

text \<open>A call to the outside: it is recorded in the trace and yields what the outside answers.\<close>

definition call :: "effect \<Rightarrow> (py_exception + 'a) \<Rightarrow> 'a prog" where
  "call eff answer = (\<lambda>s. (answer, s\<lparr>effects := effects s @ [eff]\<rparr>))"

text \<open>\<^verbatim>\<open>"=" * n\<close>.\<close>

definition rule_line :: "nat \<Rightarrow> string" where
  "rule_line n = replicate n (CHR ''='')"

text \<open>\<^verbatim>\<open>str(n)\<close> for an integer and for a boolean.\<close>

fun str_nat :: "nat \<Rightarrow> string" where
  "str_nat n =
     (if n < 10 then [''0123456789'' ! n]
      else str_nat (n div 10) @ [''0123456789'' ! (n mod 10)])"

declare str_nat.simps [simp del]

definition str_int :: "int \<Rightarrow> string" where
  "str_int i = (if i < 0 then CHR ''-'' # str_nat (nat (- i)) else str_nat (nat i))"

definition str_bool :: "bool \<Rightarrow> string" where
  "str_bool b = (if b then ''True'' else ''False'')"

text \<open>\<^verbatim>\<open>' '.join(cmd)\<close>.\<close>

fun join_spaces :: "string list \<Rightarrow> string" where
  "join_spaces [] = []"
| "join_spaces [x] = x"
| "join_spaces (x # y # ys) = x @ '' '' @ join_spaces (y # ys)"

text \<open>
  The sample cap has type \<^verbatim>\<open>int | None\<close>: \<open>None\<close> and \<open>Some 0\<close> are the false values of
  the test \<^verbatim>\<open>if max_samples:\<close>. \<open>slice_to xs k\<close> is \<^verbatim>\<open>xs[:k]\<close> (a negative \<open>k\<close> counts
  from the end) and \<open>py_range n\<close> is \<^verbatim>\<open>range(n)\<close>.
\<close>

definition slice_to :: "'a list \<Rightarrow> int \<Rightarrow> 'a list" where
  "slice_to xs k = (if k < 0 then take (nat (int (length xs) + k)) xs else take (nat k) xs)"

definition py_range :: "int \<Rightarrow> nat list" where
  "py_range n = [0..<nat n]"

text \<open>
  \<^verbatim>\<open>str.strip()\<close> removes leading and trailing whitespace. A character of a string is a
  code point below 256; \<open>isspace\<close> lists those for which \<^verbatim>\<open>str.isspace\<close> holds: tab to
  carriage return, the four separators 0x1C to 0x1F, the space, NEL (0x85) and the
  no-break space (0xA0).
\<close>

definition isspace :: "char \<Rightarrow> bool" where
  "isspace c = (c \<in> {CHR 0x09, CHR 0x0A, CHR 0x0B, CHR 0x0C, CHR 0x0D,
                      CHR 0x1C, CHR 0x1D, CHR 0x1E, CHR 0x1F, CHR 0x20,
                      CHR 0x85, CHR 0xA0})"

definition strip :: "string \<Rightarrow> string" where
  "strip s = rev (dropWhile isspace (rev (dropWhile isspace s)))"

text \<open>\<^verbatim>\<open>d[k]\<close> on a dictionary raises \<open>KeyError\<close> for a missing key.\<close>

definition getitem :: "(string \<rightharpoonup> 'v) \<Rightarrow> string \<Rightarrow> py_exception + 'v" where
  "getitem d k = (case d k of None \<Rightarrow> Inl (KeyError k) | Some v \<Rightarrow> Inr v)"

text \<open>
  A list comprehension \<^verbatim>\<open>[f(x) for x in xs]\<close> whose body may raise, and
  \<^verbatim>\<open>Dataset.map(f)\<close>: the elements are visited in order and the first exception ends
  the traversal. A \<^verbatim>\<open>Dataset\<close> is modelled by the list of its rows, so
  \<^verbatim>\<open>Dataset.from_list\<close> is the identity and \<^verbatim>\<open>len\<close> is \<open>length\<close>.
\<close>

fun map_raising :: "('a \<Rightarrow> py_exception + 'b) \<Rightarrow> 'a list \<Rightarrow> py_exception + 'b list" where
  "map_raising f [] = Inr []"
| "map_raising f (x # xs) =
     (case f x of
        Inl e \<Rightarrow> Inl e
      | Inr y \<Rightarrow> (case map_raising f xs of Inl e \<Rightarrow> Inl e | Inr ys \<Rightarrow> Inr (y # ys)))"

text \<open>\<^verbatim>\<open>Dataset.select(indices)\<close>: the rows at the indices, in their order.\<close>

definition select :: "'a list \<Rightarrow> nat list \<Rightarrow> py_exception + 'a list" where
  "select ds indices =
     map_raising (\<lambda>i. if i < length ds then Inr (ds ! i) else Inl (IndexError ''Index out of range'')) indices"

section \<open>The outside world\<close>

text \<open>
  The answers of the operating system and of the libraries the scripts call. Path
  arithmetic (\<open>path_div\<close> is the operator \<^verbatim>\<open>/\<close> of pathlib), \<^verbatim>\<open>str\<close> of a float,
  the file system, the dataset registry and child processes are parameters: the scripts
  only pass values to them. Floats are never computed with; a float is modelled by the
  real number it denotes.
\<close>

record os_world =
  platform :: platform_facts
  environ :: "string \<rightharpoonup> string"
  sys_executable :: string
  script_dir :: string
  path_div :: "string \<Rightarrow> string \<Rightarrow> string"
  path_parent :: "string \<Rightarrow> string"
  os_path_join :: "string \<Rightarrow> string \<Rightarrow> string"
  abspath :: "string \<Rightarrow> string"
  dirname :: "string \<Rightarrow> string"
  basename :: "string \<Rightarrow> string"
  path_exists :: "string \<Rightarrow> bool"
  str_float :: "real \<Rightarrow> string"
  json_load :: "string \<Rightarrow> py_exception + document"
  load_dataset :: "string \<Rightarrow> py_exception + example list"
  makedirs :: "string \<Rightarrow> py_exception + unit"
  subprocess_run :: "string list \<Rightarrow> py_exception + int"

text \<open>
  The trainer object of finetune\_sql.py: what \<^verbatim>\<open>train\<close> and \<^verbatim>\<open>save_model\<close> do, and
  the \<^verbatim>\<open>save_pretrained\<close> of its \<^verbatim>\<open>processing_class\<close> and \<^verbatim>\<open>tokenizer\<close> (\<open>None\<close> when
  the attribute is missing or is \<^verbatim>\<open>None\<close>).
\<close>

record trainer =
  train :: "py_exception + unit"
  save_model :: "string \<Rightarrow> py_exception + unit"
  processing_class :: "(string \<Rightarrow> py_exception + unit) option"
  tokenizer :: "(string \<Rightarrow> py_exception + unit) option"

record 'r sql_world = os_world +
  open_lines :: "string \<Rightarrow> py_exception + string list"
  json_loads :: "string \<Rightarrow> py_exception + 'r"
  mkdir :: "string \<Rightarrow> py_exception + unit"
  urlretrieve :: "string \<Rightarrow> string \<Rightarrow> py_exception + unit"
  popen :: "string list \<Rightarrow> (string \<rightharpoonup> string) \<Rightarrow> py_exception + process"
  train_test_split ::
    "'r sft_row list \<Rightarrow> real \<Rightarrow> int \<Rightarrow> py_exception + ('r sft_row list \<times> 'r sft_row list)"
  sft_trainer ::
    "string \<Rightarrow> sft_config \<Rightarrow> 'r sft_row list \<Rightarrow> 'r sft_row list \<Rightarrow> py_exception + trainer"


section \<open>finetune\_sql.py\<close>

definition DOCKER_IMAGE :: string where
  "DOCKER_IMAGE = ''ghcr.io/ggml-org/llama.cpp:full''"

definition CONVERT_SCRIPT_URL :: string where
  "CONVERT_SCRIPT_URL =
     ''https://raw.githubusercontent.com/ggml-org/llama.cpp/master/convert_hf_to_gguf.py''"

definition get_convert_script :: "'r sql_world \<Rightarrow> string prog" where
  "get_convert_script w =
     (let cache_dir = path_div w (script_dir w) ''.cache'' in
      seq (call (MakeDirs cache_dir) (mkdir w cache_dir))
     (let script_path = path_div w cache_dir ''convert_hf_to_gguf.py'' in
      seq (if \<not> path_exists w script_path then
             seq (print (''Downloading conversion script from '' @ CONVERT_SCRIPT_URL @ ''...''))
                 (call (Download CONVERT_SCRIPT_URL script_path)
                       (urlretrieve w CONVERT_SCRIPT_URL script_path))
           else return ())
          (return script_path)))"

definition filter_patterns :: "string list" where
  "filter_patterns =
     [''incorrect regex pattern'',
      ''huggingface/tokenizers: The current process just got forked'',
      ''To disable this warning'',
      ''Avoid using '' @ [CHR 0x60] @ ''tokenizers'' @ [CHR 0x60] @ '' before the fork'',
      ''Explicitly set the environment variable TOKENIZERS_PARALLELISM'']"

text \<open>The body of the helper thread: every line of the child's standard output is printed.\<close>

fun stream_stdout :: "string list \<Rightarrow> unit prog" where
  "stream_stdout [] = return ()"
| "stream_stdout (line # rest) = seq (print_end_empty line) (stream_stdout rest)"

text \<open>
  The loop over the child's standard error. \<^verbatim>\<open>pattern in line\<close> is \<open>sublist pattern line\<close>.
\<close>

fun filter_stderr :: "string list \<Rightarrow> unit prog" where
  "filter_stderr [] = return ()"
| "filter_stderr (line # rest) =
     seq (if \<not> list_ex (\<lambda>pattern. sublist pattern line) filter_patterns
          then print_end_empty_stderr line else return ())
         (filter_stderr rest)"

text \<open>
  The helper thread writes to standard output only and the main thread to standard error
  only, so the content of each stream does not depend on how the two interleave; the model
  runs the one after the other.
\<close>

definition run_with_filtered_stderr ::
    "'r sql_world \<Rightarrow> string list \<Rightarrow> (string \<rightharpoonup> string) \<Rightarrow> unit prog" where
  "run_with_filtered_stderr w cmd env =
     bind (call (Spawn cmd) (popen w cmd env)) (\<lambda>proc.
     seq (stream_stdout (proc_stdout proc))
    (seq (filter_stderr (proc_stderr proc))
         (if returncode proc \<noteq> 0 then raise (CalledProcessError (returncode proc) cmd)
          else return ())))"

definition convert_to_gguf :: "'r sql_world \<Rightarrow> string \<Rightarrow> string \<Rightarrow> string \<Rightarrow> string prog" where
  "convert_to_gguf w model_path0 output_path0 quantization =
     (let model_path = abspath w model_path0;
          output_path = abspath w output_path0 in
      seq (call (MakeDirs (dirname w output_path)) (makedirs w (dirname w output_path)))
     (let env = (environ w)(''TOKENIZERS_PARALLELISM'' \<mapsto> ''false'',
                            ''TRANSFORMERS_VERBOSITY'' \<mapsto> ''error'',
                            ''HF_HUB_DISABLE_PROGRESS_BARS'' \<mapsto> ''1'',
                            ''PYTHONWARNINGS'' \<mapsto> ''ignore'');
          is_arm = (machine (platform w) \<in> {''arm64'', ''aarch64''}) in
      bind (call (Spawn [''docker'', ''--version''])
                 (subprocess_run w [''docker'', ''--version''])) (\<lambda>rc.
     (let docker_available = (rc = 0) in
      seq (if docker_available \<and> \<not> is_arm then
            (let output_dir = dirname w output_path;
                 output_name = basename w output_path;
                 cmd = [''docker'', ''run'', ''--rm'',
                        ''-e'', ''TOKENIZERS_PARALLELISM=false'',
                        ''-e'', ''TRANSFORMERS_VERBOSITY=error'',
                        ''-v'', model_path @ '':/model:ro'',
                        ''-v'', output_dir @ '':/output'',
                        DOCKER_IMAGE,
                        ''python3'', ''/app/convert_hf_to_gguf.py'',
                        ''/model'',
                        ''--outfile'', ''/output/'' @ output_name,
                        ''--outtype'', quantization] in
             seq (print (''Using Docker image: '' @ DOCKER_IMAGE))
                 (run_with_filtered_stderr w cmd env))
           else
             bind (get_convert_script w) (\<lambda>script_path.
             seq (print (''Using local conversion script: '' @ script_path))
            (let venv_python =
                   path_div w (path_div w (path_div w (script_dir w) ''.venv'') ''bin'') ''python'';
                 python_cmd = (if path_exists w venv_python then venv_python else ''python3'');
                 cmd = [python_cmd,
                        ''-W'', ''ignore::UserWarning'',
                        script_path,
                        model_path,
                        ''--outfile'', output_path,
                        ''--outtype'', quantization] in
             run_with_filtered_stderr w cmd env)))
          (return output_path)))))"

definition get_device_info :: "platform_facts \<Rightarrow> device_info" where
  "get_device_info pf =
     (let is_mac = (system pf = ''Darwin'');
          has_mps = (is_mac \<and> mps_is_available pf);
          has_cuda = cuda_is_available pf
      in if has_mps then
           \<lparr>device = ''mps'', device_info.bf16 = False, device_info.fp16 = False,
            default_batch_size = 2, device_info.gradient_checkpointing = True\<rparr>
         else if has_cuda then
           \<lparr>device = ''cuda'', device_info.bf16 = True, device_info.fp16 = False,
            default_batch_size = 4, device_info.gradient_checkpointing = False\<rparr>
         else
           \<lparr>device = ''cpu'', device_info.bf16 = False, device_info.fp16 = False,
            default_batch_size = 1, device_info.gradient_checkpointing = True\<rparr>)"

definition load_jsonl_dataset :: "'r sql_world \<Rightarrow> string \<Rightarrow> int option \<Rightarrow> 'r list prog" where
  "load_jsonl_dataset w path max_samples =
     bind (call (ReadFile path) (open_lines w path)) (\<lambda>f.
     bind (lift (map_raising (json_loads w) (filter (\<lambda>line. strip line \<noteq> []) f))) (\<lambda>data.
     return (case max_samples of
               Some n \<Rightarrow> if n \<noteq> 0 then slice_to data n else data
             | None \<Rightarrow> data)))"
  for max_samples

definition load_local_dataset :: "'r sql_world \<Rightarrow> string \<Rightarrow> int option \<Rightarrow> example list prog" where
  "load_local_dataset w json_path max_samples =
     bind (call (ReadFile json_path) (json_load w json_path)) (\<lambda>data.
     bind (lift (getitem data ''rows'')) (\<lambda>rows0.
     (let rows = (case max_samples of
                    Some n \<Rightarrow> if n \<noteq> 0 then slice_to rows0 n else rows0
                  | None \<Rightarrow> rows0) in
      lift (map_raising (\<lambda>row. getitem row ''row'') rows))))"
  for max_samples

definition load_hf_dataset :: "'r sql_world \<Rightarrow> int option \<Rightarrow> example list prog" where
  "load_hf_dataset w max_samples =
     bind (call (HubLoad ''b-mc2/sql-create-context'') (load_dataset w ''b-mc2/sql-create-context''))
       (\<lambda>dataset.
     (case max_samples of
        Some n \<Rightarrow> if n \<noteq> 0 then lift (select dataset (py_range (min n (int (length dataset)))))
                  else return dataset
      | None \<Rightarrow> return dataset))"
  for max_samples

definition format_for_sft :: "example \<Rightarrow> py_exception + sft_example" where
  "format_for_sft example =
     (case getitem example ''context'' of
        Inl e \<Rightarrow> Inl e
      | Inr context \<Rightarrow>
         (case getitem example ''question'' of
            Inl e \<Rightarrow> Inl e
          | Inr question \<Rightarrow>
             (let prompt_text = ''Given the following SQL schema:'' @ newline @ context @ newline
                                @ newline @ ''Write a SQL query to answer: '' @ question in
              (case getitem example ''answer'' of
                 Inl e \<Rightarrow> Inl e
               | Inr answer \<Rightarrow>
                  Inr \<lparr>prompt = [\<lparr>role = ''user'', content = prompt_text\<rparr>],
                       completion = [\<lparr>role = ''assistant'', content = answer\<rparr>]\<rparr>))))"

text \<open>The configuration object built in \<^verbatim>\<open>main\<close> (the call of \<^verbatim>\<open>SFTConfig\<close>).\<close>

definition training_args :: "sql_args \<Rightarrow> device_info \<Rightarrow> sft_config" where
  "training_args args device_info =
     \<lparr>output_dir = sql_args.output_dir args,
      num_train_epochs = epochs args,
      per_device_train_batch_size = batch_size args,
      per_device_eval_batch_size = batch_size args,
      gradient_accumulation_steps = 4,
      gradient_checkpointing = device_info.gradient_checkpointing device_info,
      learning_rate = lr args,
      bf16 = device_info.bf16 device_info,
      fp16 = device_info.fp16 device_info,
      logging_steps = 10,
      save_strategy = ''no'',
      eval_strategy = ''no'',
      max_length = 512,
      warmup_ratio = 0.1,
      lr_scheduler_type = ''cosine'',
      report_to = ''none'',
      dataloader_pin_memory = (device device_info \<noteq> ''mps'')\<rparr>"


text \<open>
  \<^verbatim>\<open>main\<close> of finetune\_sql.py, from the options that \<^verbatim>\<open>parse_args\<close> returned (the
  default of \<^verbatim>\<open>--batch-size\<close> is the profile's batch size, so \<open>batch_size args\<close> is that
  value when the option is not given). The function is given in two pieces:
  \<open>main_sql_training\<close> is its text up to the comment \<^verbatim>\<open># Convert to GGUF format\<close> and
  yields the value of \<^verbatim>\<open>final_path\<close>; \<open>main_sql\<close> is the whole function.
\<close>

definition main_sql_training :: "'r sql_world \<Rightarrow> sql_args \<Rightarrow> string prog" where
  "main_sql_training w args =
     (let device_info = get_device_info (platform w) in
      seq (prints
            [rule_line 50,
             ''Full Supervised Fine-Tuning (SFT)'',
             rule_line 50,
             [],
             ''Device: '' @ device device_info,
             ''Model: '' @ sql_args.model args,
             ''Epochs: '' @ str_int (epochs args),
             ''Batch size: '' @ str_int (batch_size args),
             ''Learning rate: '' @ str_float w (lr args),
             ''Output: '' @ sql_args.output_dir args,
             ''Max samples: '' @ (case sql_args.max_samples args of
                                    Some n \<Rightarrow> if n \<noteq> 0 then str_int n else ''all''
                                  | None \<Rightarrow> ''all''),
             ''bf16: '' @ str_bool (device_info.bf16 device_info),
             ''Gradient checkpointing: ''
               @ str_bool (device_info.gradient_checkpointing device_info),
             []])
     (let without_input =
            (if use_hf args then
               seq (print ''Loading dataset from HuggingFace...'')
              (bind (load_hf_dataset w (sql_args.max_samples args)) (\<lambda>dataset.
               seq (print (''Loaded '' @ str_int (int (length dataset)) @ '' examples''))
              (seq (print ''Formatting dataset for SFT...'')
              (bind (lift (map_raising format_for_sft dataset)) (\<lambda>formatted.
               return (map PromptCompletion formatted))))))
             else
              (let json_path =
                     path_div w (path_div w (path_div w (path_parent w (script_dir w)) ''evals'')
                       ''sql-create-context'') ''sql-create-context.json'' in
               seq (print (''Loading dataset from '' @ json_path @ ''...''))
              (bind (load_local_dataset w json_path (sql_args.max_samples args)) (\<lambda>dataset.
               seq (print (''Loaded '' @ str_int (int (length dataset)) @ '' examples''))
              (seq (print ''Formatting dataset for SFT...'')
              (bind (lift (map_raising format_for_sft dataset)) (\<lambda>formatted.
               return (map PromptCompletion formatted))))))))
      in
      bind
       (case input args of
          Some path \<Rightarrow>
            if path \<noteq> [] then
              seq (print (''Loading dataset from '' @ path @ ''...''))
             (bind (load_jsonl_dataset w path (sql_args.max_samples args)) (\<lambda>dataset.
              seq (print (''Loaded '' @ str_int (int (length dataset)) @ '' examples''))
                  (return (map Messages dataset))))
            else without_input
        | None \<Rightarrow> without_input)
       (\<lambda>dataset.
      bind (lift (train_test_split w dataset (eval_split args) 42)) (\<lambda>splits.
      seq (prints
            [''Train: '' @ str_int (int (length (fst splits))) @ '' examples'',
             ''Eval: '' @ str_int (int (length (snd splits))) @ '' examples'',
             []])
     (seq (print ''Initializing trainer (full fine-tuning, all weights)...'')
     (bind (call (CreateTrainer (sql_args.model args) (training_args args device_info))
                 (sft_trainer w (sql_args.model args) (training_args args device_info)
                    (fst splits) (snd splits))) (\<lambda>trainer.
      seq (prints [''Starting training...'', []])
     (seq (call Train (train trainer))
     (let final_path = sql_args.output_dir args @ ''-final'' in
      seq (print (''Saving model to '' @ final_path @ ''...''))
     (seq (call (SaveModel final_path) (save_model trainer final_path))
     (seq (case processing_class trainer of
             Some save_pretrained \<Rightarrow>
               call (SavePretrained final_path) (save_pretrained final_path)
           | None \<Rightarrow>
              (case tokenizer trainer of
                 Some save_pretrained \<Rightarrow>
                   call (SavePretrained final_path) (save_pretrained final_path)
               | None \<Rightarrow> return ()))
          (return final_path))))))))))))"

definition main_sql :: "'r sql_world \<Rightarrow> sql_args \<Rightarrow> unit prog" where
  "main_sql w args =
     bind (main_sql_training w args) (\<lambda>final_path.
     bind
       (if \<not> no_gguf args then
          (let gguf_path = final_path @ ''.gguf'' in
           seq (prints [[], ''Converting to GGUF format...''])
          (try_except_RuntimeError
            (bind (convert_to_gguf w final_path gguf_path (gguf_type args)) (\<lambda>converted.
             seq (print (''GGUF model saved to: '' @ abspath w gguf_path))
                 (return (Some gguf_path))))
            (\<lambda>e. seq (print (''Warning: GGUF conversion failed: '' @ e))
                      (return None))))
        else return None)
       (\<lambda>gguf_path.
      seq (prints
            [[],
             rule_line 50,
             ''Training complete!'',
             ''Model saved to: '' @ abspath w final_path])
     (seq (case gguf_path of
             Some g \<Rightarrow> if g \<noteq> [] then print (''GGUF model: '' @ abspath w g) else return ()
           | None \<Rightarrow> return ())
     (seq (prints
            [rule_line 50,
             [],
             ''Next steps - Use your fine-tuned model:'',
             []])
     (seq (case gguf_path of
             Some g \<Rightarrow>
               if g \<noteq> [] then
                 prints
                   [''  LMStudio:'',
                    ''    lms import '' @ abspath w g @ '' --user-repo local/qwen3-sql'',
                    ''    lms load local/qwen3-sql --gpu max'',
                    [],
                    ''  Ollama:'',
                    ''    echo '' @ [CHR 0x27] @ ''FROM '' @ abspath w g @ [CHR 0x27]
                      @ '' > Modelfile'',
                    ''    ollama create qwen3-sql -f Modelfile'',
                    ''    ollama run qwen3-sql'']
               else
                 prints
                   [''  Convert to GGUF manually:'',
                    ''    node packages/text2sql/src/finetune/convert-to-gguf.ts ''
                      @ final_path @ '' '' @ final_path @ ''.gguf'']
           | None \<Rightarrow>
               prints
                 [''  Convert to GGUF manually:'',
                  ''    node packages/text2sql/src/finetune/convert-to-gguf.ts ''
                    @ final_path @ '' '' @ final_path @ ''.gguf''])
          (print []))))))"


section \<open>finetune\_mlx.py\<close>

text \<open>The options of finetune\_mlx.py as \<^verbatim>\<open>parse_args\<close> returns them.\<close>

record mlx_args =
  iters :: int
  batch_size :: int
  lr :: real
  output_dir :: string
  max_samples :: "int option"
  use_hf :: bool
  model :: string
  num_layers :: int
  eval_split :: real
  no_gguf :: bool

record mlx_world = os_world +
  train_test_split ::
    "chat_example list \<Rightarrow> real \<Rightarrow> int \<Rightarrow> py_exception + (chat_example list \<times> chat_example list)"
  json_dumps :: "chat_example \<Rightarrow> string"
  write_file :: "string \<Rightarrow> string list \<Rightarrow> py_exception + unit"

definition check_apple_silicon :: "mlx_world \<Rightarrow> unit prog" where
  "check_apple_silicon w =
     seq (if system (platform w) \<noteq> ''Darwin'' then
            seq (prints
                  [rule_line 60,
                   ''ERROR: Not running on macOS'',
                   rule_line 60,
                   [],
                   ''MLX requires macOS with Apple Silicon (M1/M2/M3/M4).'',
                   [],
                   ''For other platforms, use:'',
                   ''  - Linux/Windows with NVIDIA GPU: finetune_sql.py'',
                   []])
                (raise (SystemExit 1))
          else return ())
         (if machine (platform w) \<notin> {''arm64'', ''aarch64''} then
            prints
              [rule_line 60,
               ''WARNING: Not running on Apple Silicon'',
               rule_line 60,
               [],
               ''MLX works best on Apple Silicon (M1/M2/M3/M4).'',
               ''Performance on Intel Macs will be limited.'',
               []]
          else return ())"

definition to_chat_format :: "example \<Rightarrow> py_exception + chat_example" where
  "to_chat_format example =
     (case getitem example ''context'' of
        Inl e \<Rightarrow> Inl e
      | Inr context \<Rightarrow>
         (case getitem example ''question'' of
            Inl e \<Rightarrow> Inl e
          | Inr question \<Rightarrow>
             (let user_content = ''Given the following SQL schema:'' @ newline @ context @ newline
                                 @ newline @ ''Write a SQL query to answer: '' @ question in
              (case getitem example ''answer'' of
                 Inl e \<Rightarrow> Inl e
               | Inr answer \<Rightarrow>
                  Inr \<lparr>messages = [\<lparr>role = ''user'', content = user_content\<rparr>,
                                   \<lparr>role = ''assistant'', content = answer\<rparr>]\<rparr>))))"

text \<open>
  The first part of \<^verbatim>\<open>prepare_data\<close>, under its comment \<^verbatim>\<open># Load dataset\<close>: the
  value of \<^verbatim>\<open>dataset\<close> when the line \<^verbatim>\<open>Loaded ... examples\<close> is printed.
\<close>

definition prepare_data_load :: "mlx_world \<Rightarrow> int option \<Rightarrow> bool \<Rightarrow> example list prog" where
  "prepare_data_load w max_samples use_hf =
     (if use_hf then
        seq (print ''Loading dataset from HuggingFace...'')
       (bind (call (HubLoad ''b-mc2/sql-create-context'')
                   (load_dataset w ''b-mc2/sql-create-context'')) (\<lambda>dataset.
        (case max_samples of
           Some n \<Rightarrow> if n \<noteq> 0 then lift (select dataset (py_range (min n (int (length dataset)))))
                     else return dataset
         | None \<Rightarrow> return dataset)))
      else
       (let json_path =
              path_div w (path_div w (path_div w (path_parent w (script_dir w)) ''evals'')
                ''sql-create-context'') ''sql-create-context.json'' in
        seq (print (''Loading dataset from '' @ json_path @ ''...''))
       (bind (call (ReadFile json_path) (json_load w json_path)) (\<lambda>data.
        bind (lift (getitem data ''rows'')) (\<lambda>rows0.
        (let rows = (case max_samples of
                       Some n \<Rightarrow> if n \<noteq> 0 then slice_to rows0 n else rows0
                     | None \<Rightarrow> rows0) in
         lift (map_raising (\<lambda>row. getitem row ''row'') rows)))))))"
  for max_samples use_hf

definition prepare_data :: "mlx_world \<Rightarrow> string \<Rightarrow> int option \<Rightarrow> bool \<Rightarrow> real \<Rightarrow> string prog" where
  "prepare_data w output_dir max_samples use_hf eval_split =
     bind (prepare_data_load w max_samples use_hf) (\<lambda>dataset0.
     seq (print (''Loaded '' @ str_int (int (length dataset0)) @ '' examples''))
    (seq (print ''Converting to chat format...'')
    (bind (lift (map_raising to_chat_format dataset0)) (\<lambda>dataset.
     bind (lift (mlx_world.train_test_split w dataset eval_split 42)) (\<lambda>splits.
     seq (prints
           [''Train: '' @ str_int (int (length (fst splits))) @ '' examples'',
            ''Valid: '' @ str_int (int (length (snd splits))) @ '' examples''])
    (let data_dir = os_path_join w output_dir ''data'' in
     seq (call (MakeDirs data_dir) (makedirs w data_dir))
    (let train_path = os_path_join w data_dir ''train.jsonl'';
         valid_path = os_path_join w data_dir ''valid.jsonl'';
         train_lines = map (\<lambda>example. json_dumps w example @ newline) (fst splits);
         valid_lines = map (\<lambda>example. json_dumps w example @ newline) (snd splits) in
     seq (call (WriteFile train_path train_lines) (write_file w train_path train_lines))
    (seq (call (WriteFile valid_path valid_lines) (write_file w valid_path valid_lines))
    (seq (print (''Data saved to '' @ data_dir))
         (return data_dir))))))))))"
  for output_dir max_samples use_hf eval_split

text \<open>\<^verbatim>\<open>subprocess.run(cmd, check=True)\<close>: a return code other than 0 raises.\<close>

definition subprocess_run_check :: "mlx_world \<Rightarrow> string list \<Rightarrow> unit prog" where
  "subprocess_run_check w cmd =
     bind (call (Spawn cmd) (subprocess_run w cmd)) (\<lambda>rc.
     if rc \<noteq> 0 then raise (CalledProcessError rc cmd) else return ())"

definition run_training ::
    "mlx_world \<Rightarrow> string \<Rightarrow> string \<Rightarrow> string \<Rightarrow> int \<Rightarrow> int \<Rightarrow> real \<Rightarrow> int \<Rightarrow> string prog" where
  "run_training w model data_dir output_dir iters batch_size learning_rate num_layers =
     (let adapter_path = os_path_join w output_dir ''adapters'';
          cmd = [sys_executable w, ''-m'', ''mlx_lm.lora'',
                 ''--model'', model,
                 ''--train'',
                 ''--data'', data_dir,
                 ''--adapter-path'', adapter_path,
                 ''--iters'', str_int iters,
                 ''--batch-size'', str_int batch_size,
                 ''--learning-rate'', str_float w learning_rate,
                 ''--num-layers'', str_int num_layers] in
      seq (prints [[], ''Running: '' @ join_spaces cmd, []])
     (seq (subprocess_run_check w cmd)
          (return adapter_path)))"
  for model output_dir iters batch_size learning_rate num_layers

definition fuse_and_export ::
    "mlx_world \<Rightarrow> string \<Rightarrow> string \<Rightarrow> string \<Rightarrow> bool \<Rightarrow> (string \<times> string option) prog" where
  "fuse_and_export w model adapter_path output_dir export_gguf =
     (let fused_path = os_path_join w output_dir ''fused_model'';
          cmd0 = [sys_executable w, ''-m'', ''mlx_lm.fuse'',
                  ''--model'', model,
                  ''--adapter-path'', adapter_path,
                  ''--save-path'', fused_path];
          cmd = (if export_gguf then cmd0 @ [''--export-gguf''] else cmd0) in
      seq (prints [[], ''Running: '' @ join_spaces cmd, []])
     (seq (subprocess_run_check w cmd)
     (let gguf_path =
            (if export_gguf then
               (let potential_gguf = os_path_join w fused_path ''ggml-model-f16.gguf'' in
                if path_exists w potential_gguf then Some potential_gguf else None)
             else None) in
      return (fused_path, gguf_path))))"
  for model output_dir

text \<open>
  \<^verbatim>\<open>main\<close> of finetune\_mlx.py, from the options that \<^verbatim>\<open>parse_args\<close> returned. The
  function is given in two pieces: \<open>main_mlx_steps12\<close> is its text up to the comment
  \<^verbatim>\<open># Step 3: Fuse and export\<close> and yields the value of \<^verbatim>\<open>adapter_path\<close>;
  \<open>main_mlx\<close> is the whole function.
\<close>

definition main_mlx_steps12 :: "mlx_world \<Rightarrow> mlx_args \<Rightarrow> string prog" where
  "main_mlx_steps12 w args =
     seq (check_apple_silicon w)
    (seq (prints
           [rule_line 60,
            ''MLX Fine-Tuning (Apple Silicon)'',
            rule_line 60,
            [],
            ''Platform: '' @ system (platform w) @ '' '' @ machine (platform w),
            ''Model: '' @ mlx_args.model args,
            ''Iterations: '' @ str_int (iters args),
            ''Batch size: '' @ str_int (mlx_args.batch_size args),
            ''Learning rate: '' @ str_float w (mlx_args.lr args),
            ''LoRA layers: '' @ str_int (num_layers args),
            ''Output: '' @ mlx_args.output_dir args,
            ''Max samples: '' @ (case mlx_args.max_samples args of
                                   Some n \<Rightarrow> if n \<noteq> 0 then str_int n else ''all''
                                 | None \<Rightarrow> ''all''),
            []])
    (seq (call (MakeDirs (mlx_args.output_dir args)) (makedirs w (mlx_args.output_dir args)))
    (seq (prints [rule_line 40, ''Step 1: Preparing data'', rule_line 40])
    (bind (prepare_data w (mlx_args.output_dir args) (mlx_args.max_samples args)
             (mlx_args.use_hf args) (mlx_args.eval_split args)) (\<lambda>data_dir.
     seq (prints [[], rule_line 40, ''Step 2: Training with LoRA'', rule_line 40])
    (run_training w (mlx_args.model args) data_dir (mlx_args.output_dir args) (iters args)
             (mlx_args.batch_size args) (mlx_args.lr args) (num_layers args)))))))"

definition main_mlx :: "mlx_world \<Rightarrow> mlx_args \<Rightarrow> unit prog" where
  "main_mlx w args =
     bind (main_mlx_steps12 w args) (\<lambda>adapter_path.
     seq (prints
           [[],
            rule_line 40,
            ''Step 3: Fusing adapters''
              @ (if \<not> mlx_args.no_gguf args then '' and exporting GGUF'' else []),
            rule_line 40])
    (bind (fuse_and_export w (mlx_args.model args) adapter_path (mlx_args.output_dir args)
             (\<not> mlx_args.no_gguf args)) (\<lambda>fused.
     (let fused_path = fst fused; gguf_path = snd fused in
      seq (prints
            [[],
             rule_line 60,
             ''Training complete!'',
             rule_line 60,
             [],
             ''Adapters:    '' @ abspath w adapter_path,
             ''Fused model: '' @ abspath w fused_path])
     (seq (case gguf_path of
             Some g \<Rightarrow> if g \<noteq> [] then print (''GGUF model:  '' @ abspath w g) else return ()
           | None \<Rightarrow> return ())
     (seq (prints [[], ''Next steps - Use your fine-tuned model:'', []])
     (seq (case gguf_path of
             Some g \<Rightarrow>
               if g \<noteq> [] then
                 prints
                   [''  LMStudio:'',
                    ''    lms import '' @ abspath w g @ '' --user-repo local/qwen3-sql-mlx'',
                    ''    lms load local/qwen3-sql-mlx --gpu max'',
                    [],
                    ''  Ollama:'',
                    ''    echo '' @ [CHR 0x27] @ ''FROM '' @ abspath w g @ [CHR 0x27]
                      @ '' > Modelfile'',
                    ''    ollama create qwen3-sql-mlx -f Modelfile'',
                    ''    ollama run qwen3-sql-mlx'']
               else
                 prints
                   [''  Generate with MLX:'',
                    ''    mlx_lm.generate --model '' @ fused_path @ '' --prompt ''
                      @ [CHR 0x27] @ ''Your prompt'' @ [CHR 0x27]]
           | None \<Rightarrow>
               prints
                 [''  Generate with MLX:'',
                  ''    mlx_lm.generate --model '' @ fused_path @ '' --prompt ''
                    @ [CHR 0x27] @ ''Your prompt'' @ [CHR 0x27]])
          (print []))))))))"


section \<open>Scenarios\<close>

text \<open>
  Concrete platforms, datasets and worlds on which the functions above are run. The
  dataset has three rows; the split of a scenario puts the last row into the held-out set.
\<close>

definition linux_cuda :: platform_facts where
  "linux_cuda = \<lparr>system = ''Linux'', machine = ''x86_64'',
                  mps_is_available = False, cuda_is_available = True\<rparr>"

definition linux_cpu :: platform_facts where
  "linux_cpu = \<lparr>system = ''Linux'', machine = ''x86_64'',
                 mps_is_available = False, cuda_is_available = False\<rparr>"

definition mac_mps :: platform_facts where
  "mac_mps = \<lparr>system = ''Darwin'', machine = ''arm64'',
               mps_is_available = True, cuda_is_available = False\<rparr>"

definition row1 :: example where
  "row1 = [''context'' \<mapsto> ''CREATE TABLE t (a INT)'',
           ''question'' \<mapsto> ''How many rows?'',
           ''answer'' \<mapsto> ''SELECT COUNT(*) FROM t'']"

definition row2 :: example where
  "row2 = [''context'' \<mapsto> ''CREATE TABLE u (b INT)'',
           ''question'' \<mapsto> ''Largest b?'',
           ''answer'' \<mapsto> ''SELECT MAX(b) FROM u'']"

definition row3 :: example where
  "row3 = [''context'' \<mapsto> ''CREATE TABLE v (c INT)'',
           ''question'' \<mapsto> ''Smallest c?'',
           ''answer'' \<mapsto> ''SELECT MIN(c) FROM v'']"

definition local_document :: document where
  "local_document = [''rows'' \<mapsto> [[''row'' \<mapsto> row1], [''row'' \<mapsto> row2], [''row'' \<mapsto> row3]]]"

text \<open>A document whose third row lacks the key \<^verbatim>\<open>row\<close>.\<close>

definition ragged_document :: document where
  "ragged_document = [''rows'' \<mapsto> [[''row'' \<mapsto> row1], [''row'' \<mapsto> row2], Map.empty]]"

text \<open>
  The lines of a JSONL file: three records, one empty line, one line of spaces and one line
  that holds a no-break space only.
\<close>

definition jsonl_lines :: "string list" where
  "jsonl_lines = [''{1}'' @ newline, newline, ''{2}'' @ newline, ''  '' @ newline,
                  [CHR 0xA0] @ newline, ''{3}'' @ newline]"

definition converter_stderr :: "string list" where
  "converter_stderr =
     [''You set add_prefix_space. To disable this warning, set the flag'' @ newline,
      ''ValueError: unsupported tensor'' @ newline,
      ''possibly an incorrect regex pattern'' @ newline,
      ''conversion aborted'' @ newline]"

definition demo_trainer :: trainer where
  "demo_trainer = \<lparr>train = Inr (), save_model = (\<lambda>p. Inr ()),
                    processing_class = Some (\<lambda>p. Inr ()), tokenizer = None\<rparr>"

text \<open>
  A world for finetune\_sql.py on the given platform, in which every call succeeds and the
  converter process ends with the given return code.
\<close>

definition sql_scenario :: "platform_facts \<Rightarrow> int \<Rightarrow> string sql_world" where
  "sql_scenario pf rc =
     \<lparr>platform = pf,
      environ = Map.empty,
      sys_executable = ''python'',
      script_dir = ''/repo/finetune'',
      path_div = (\<lambda>a b. a @ ''/'' @ b),
      path_parent = (\<lambda>a. ''/repo''),
      os_path_join = (\<lambda>a b. a @ ''/'' @ b),
      abspath = (\<lambda>p. ''/cwd/'' @ p),
      dirname = (\<lambda>p. ''/cwd''),
      basename = (\<lambda>p. ''out-final.gguf''),
      path_exists = (\<lambda>p. True),
      str_float = (\<lambda>x. ''2e-05''),
      json_load = (\<lambda>p. Inr local_document),
      load_dataset = (\<lambda>name. Inr [row1, row2, row3]),
      makedirs = (\<lambda>p. Inr ()),
      subprocess_run = (\<lambda>cmd. Inr 0),
      open_lines = (\<lambda>p. Inr jsonl_lines),
      json_loads = (\<lambda>line. Inr (strip line)),
      mkdir = (\<lambda>p. Inr ()),
      urlretrieve = (\<lambda>url p. Inr ()),
      popen = (\<lambda>cmd env. Inr \<lparr>proc_stdout = [''INFO: loading model'' @ newline],
                                 proc_stderr = converter_stderr,
                                 returncode = rc\<rparr>),
      sql_world.train_test_split = (\<lambda>ds f seed. Inr (butlast ds, [last ds])),
      sft_trainer = (\<lambda>m cfg tr ev. Inr demo_trainer)\<rparr>"

definition demo_sql_args :: sql_args where
  "demo_sql_args =
     \<lparr>epochs = 3, sql_args.batch_size = 4, sql_args.lr = 0.00002, sql_args.output_dir = ''out'',
      sql_args.max_samples = None, input = None, sql_args.use_hf = False,
      sql_args.model = ''Qwen/Qwen3-0.6B'', sql_args.eval_split = 0.1,
      sql_args.no_gguf = False, gguf_type = ''q8_0''\<rparr>"

text \<open>
  A world for finetune\_mlx.py on the given platform, in which every call succeeds; the
  flag says whether the file \<^verbatim>\<open>ggml-model-f16.gguf\<close> exists after the fuse step.
\<close>

definition mlx_scenario :: "platform_facts \<Rightarrow> bool \<Rightarrow> mlx_world" where
  "mlx_scenario pf gguf_written =
     \<lparr>platform = pf,
      environ = Map.empty,
      sys_executable = ''python'',
      script_dir = ''/repo/finetune'',
      path_div = (\<lambda>a b. a @ ''/'' @ b),
      path_parent = (\<lambda>a. ''/repo''),
      os_path_join = (\<lambda>a b. a @ ''/'' @ b),
      abspath = (\<lambda>p. ''/cwd/'' @ p),
      dirname = (\<lambda>p. ''/cwd''),
      basename = (\<lambda>p. p),
      path_exists = (\<lambda>p. gguf_written),
      str_float = (\<lambda>x. ''1e-05''),
      json_load = (\<lambda>p. Inr local_document),
      load_dataset = (\<lambda>name. Inr [row1, row2, row3]),
      makedirs = (\<lambda>p. Inr ()),
      subprocess_run = (\<lambda>cmd. Inr 0),
      mlx_world.train_test_split = (\<lambda>ds f seed. Inr (butlast ds, [last ds])),
      json_dumps = (\<lambda>ex. concat (map content (messages ex))),
      write_file = (\<lambda>p ls. Inr ())\<rparr>"

definition demo_mlx_args :: mlx_args where
  "demo_mlx_args =
     \<lparr>iters = 1000, batch_size = 4, lr = 0.00001, output_dir = ''out'',
      max_samples = None, use_hf = False, model = ''Qwen/Qwen3-0.5B'',
      num_layers = 16, eval_split = 0.1, no_gguf = False\<rparr>"

definition initial_state :: run_state where
  "initial_state = \<lparr>stdout = [], stderr = [], effects = []\<rparr>"


section \<open>Notions used in the statements\<close>

text \<open>
  The text that both formatters put between the schema and the question: two newlines and
  the words \<^verbatim>\<open>Write a SQL query to answer: \<close>.
\<close>

definition prompt_separator :: string where
  "prompt_separator = newline @ newline @ ''Write a SQL query to answer: ''"

text \<open>The pair of precision flags of a device profile, in the order (bf16, fp16).\<close>

definition precision_flags :: "device_info \<Rightarrow> bool \<times> bool" where
  "precision_flags d = (device_info.bf16 d, device_info.fp16 d)"

text \<open>
  \<open>emits_only Q m\<close>: whatever the state, running \<open>m\<close> only appends to the trace, and every
  call it appends satisfies \<open>Q\<close>.
\<close>

definition emits_only :: "(effect \<Rightarrow> bool) \<Rightarrow> 'a prog \<Rightarrow> bool" where
  "emits_only Q m = (\<forall>s. \<exists>new. effects (snd (m s)) = effects s @ new \<and> list_all Q new)"


section \<open>Auxiliary facts\<close>

subsection \<open>Programs\<close>

lemma return_apply: "return v s = (Inr v, s)" by (simp add: return_def)
lemma raise_apply: "raise e s = (Inl e, s)" by (simp add: raise_def)
lemma lift_apply: "lift r s = (r, s)" by (simp add: lift_def)
lemma bind_apply:
  "bind m k s = (case m s of (Inl e, s') \<Rightarrow> (Inl e, s') | (Inr v, s') \<Rightarrow> k v s')"
  by (simp add: bind_def)
lemma seq_apply:
  "seq m k s = (case m s of (Inl e, s') \<Rightarrow> (Inl e, s') | (Inr v, s') \<Rightarrow> k s')"
  by (simp add: seq_def bind_def)
lemma print_apply: "print x s = (Inr (), s\<lparr>stdout := stdout s @ [x @ newline]\<rparr>)"
  by (simp add: print_def)
lemma call_apply: "call eff answer s = (answer, s\<lparr>effects := effects s @ [eff]\<rparr>)"
  by (simp add: call_def)

lemmas prog_simps = return_apply raise_apply lift_apply bind_apply seq_apply print_apply call_apply

lemma prints_eq: "prints xs s = (Inr (), s\<lparr>stdout := stdout s @ map (\<lambda>x. x @ newline) xs\<rparr>)"
  by (induction xs arbitrary: s) (simp_all add: prog_simps)

lemma stream_stdout_eq: "stream_stdout ls s = (Inr (), s\<lparr>stdout := stdout s @ ls\<rparr>)"
  by (induction ls arbitrary: s) (simp_all add: prog_simps print_end_empty_def)

lemma filter_stderr_eq:
  "filter_stderr ls s =
     (Inr (), s\<lparr>stderr := stderr s @ filter (\<lambda>line. \<not> list_ex (\<lambda>pattern. sublist pattern line) filter_patterns) ls\<rparr>)"
  by (induction ls arbitrary: s) (simp_all add: prog_simps print_end_empty_stderr_def)

declare prints.simps [simp del] stream_stdout.simps [simp del] filter_stderr.simps [simp del]

subsection \<open>Lists\<close>

lemma map_raising_all_ok:
  "(\<And>x. x \<in> set xs \<Longrightarrow> f x = Inr (g x)) \<Longrightarrow> map_raising f xs = Inr (map g xs)"
  by (induction xs) simp_all

lemma map_raising_take:
  "map_raising f xs = Inr ys \<Longrightarrow> map_raising f (take k xs) = Inr (take k ys)"
proof (induction xs arbitrary: ys k)
  case Nil
  then show ?case by simp
next
  case (Cons x xs)
  show ?case
  proof (cases k)
    case 0
    then show ?thesis by simp
  next
    case (Suc j)
    from Cons.prems obtain y zs where fx: "f x = Inr y" and rest: "map_raising f xs = Inr zs"
      and ys: "ys = y # zs"
      by (auto split: sum.splits)
    from Cons.IH [OF rest] have "map_raising f (take j xs) = Inr (take j zs)" .
    with fx ys Suc show ?thesis by simp
  qed
qed

lemma map_raising_length: "map_raising f xs = Inr ys \<Longrightarrow> length ys = length xs"
  by (induction xs arbitrary: ys) (auto split: sum.splits)

lemma map_raising_getitem_Inr:
  "map_raising (\<lambda>row. getitem row k) xs = Inr ys \<Longrightarrow>
   length ys = length xs \<and> map Some ys = map (\<lambda>row. row k) xs"
  by (induction xs arbitrary: ys) (auto simp: getitem_def split: sum.splits option.splits)

lemma select_range: "k \<le> length ds \<Longrightarrow> select ds [0..<k] = Inr (take k ds)"
proof -
  assume k: "k \<le> length ds"
  have "select ds [0..<k] = Inr (map ((!) ds) [0..<k])"
    unfolding select_def using k by (intro map_raising_all_ok) auto
  also have "map ((!) ds) [0..<k] = take k ds"
    using k by (intro nth_equalityI) simp_all
  finally show ?thesis .
qed

lemma slice_to_pos: "0 < n \<Longrightarrow> slice_to xs n = take (nat n) xs"
  by (simp add: slice_to_def)

lemma take_min_length: "take (min k (length xs)) xs = take k xs"
  by (simp add: min_def)

subsection \<open>The prompt separator\<close>

lemma overlap_free:
  assumes a: "a \<notin> set rest" and rest: "rest \<noteq> []"
    and eq: "a # a # rest @ q1 = us @ a # a # rest @ q2" and us: "us \<noteq> []"
  shows "\<exists>vs. us = a # a # rest @ vs"
proof -
  from us obtain u us1 where u: "us = u # us1" by (cases us) blast+
  from eq u have ua: "u = a" and eq1: "a # rest @ q1 = us1 @ a # a # rest @ q2" by auto
  show ?thesis
  proof (cases us1)
    case Nil
    from eq1 Nil have "rest @ q1 = a # rest @ q2" by simp
    with rest have "a \<in> set rest" by (cases rest) simp_all
    with a show ?thesis by blast
  next
    case (Cons u2 us2)
    from eq1 Cons have u2a: "u2 = a" and eq2: "rest @ q1 = us2 @ a # a # rest @ q2" by auto
    from eq2 [unfolded append_eq_append_conv2] obtain ws where
      "(rest = us2 @ ws \<and> ws @ q1 = a # a # rest @ q2) \<or> (rest @ ws = us2 \<and> q1 = ws @ a # a # rest @ q2)"
      by blast
    then show ?thesis
    proof
      assume h: "rest @ ws = us2 \<and> q1 = ws @ a # a # rest @ q2"
      then have "us2 = rest @ ws" by blast
      with u ua Cons u2a have "us = a # a # rest @ ws" by simp
      then show ?thesis by blast
    next
      assume h: "rest = us2 @ ws \<and> ws @ q1 = a # a # rest @ q2"
      then have r: "rest = us2 @ ws" and w: "ws @ q1 = a # a # rest @ q2" by blast+
      show ?thesis
      proof (cases ws)
        case Nil
        with r have "us2 = rest" by simp
        with u ua Cons u2a have "us = a # a # rest @ []" by simp
        then show ?thesis by blast
      next
        case (Cons x xs)
        with w have "x = a" by simp
        with Cons r have "a \<in> set rest" by simp
        with a show ?thesis by blast
      qed
    qed
  qed
qed

lemma separator_unique:
  assumes a: "a \<notin> set rest" and rest: "rest \<noteq> []"
    and n1: "\<not> sublist (a # a # rest) c1" and n2: "\<not> sublist (a # a # rest) c2"
    and eq: "c1 @ a # a # rest @ q1 = c2 @ a # a # rest @ q2"
  shows "c1 = c2 \<and> q1 = q2"
proof -
  from eq [unfolded append_eq_append_conv2] obtain us where
    "(c1 = c2 @ us \<and> us @ a # a # rest @ q1 = a # a # rest @ q2)
     \<or> (c1 @ us = c2 \<and> a # a # rest @ q1 = us @ a # a # rest @ q2)"
    by blast
  then show ?thesis
  proof
    assume h: "c1 = c2 @ us \<and> us @ a # a # rest @ q1 = a # a # rest @ q2"
    then have c: "c1 = c2 @ us" and e: "a # a # rest @ q2 = us @ a # a # rest @ q1" by auto
    have "us = []"
    proof (rule ccontr)
      assume ne: "us \<noteq> []"
      from overlap_free [OF a rest e ne] obtain vs where "us = a # a # rest @ vs" by blast
      with c have "c1 = c2 @ (a # a # rest) @ vs" by simp
      then have "sublist (a # a # rest) c1" by (simp only: sublist_appendI)
      with n1 show False by blast
    qed
    with c e show ?thesis by simp
  next
    assume h: "c1 @ us = c2 \<and> a # a # rest @ q1 = us @ a # a # rest @ q2"
    then have c: "c2 = c1 @ us" and e: "a # a # rest @ q1 = us @ a # a # rest @ q2" by auto
    have "us = []"
    proof (rule ccontr)
      assume ne: "us \<noteq> []"
      from overlap_free [OF a rest e ne] obtain vs where "us = a # a # rest @ vs" by blast
      with c have "c2 = c1 @ (a # a # rest) @ vs" by simp
      then have "sublist (a # a # rest) c2" by (simp only: sublist_appendI)
      with n2 show False by blast
    qed
    with c e show ?thesis by simp
  qed
qed

lemma prompt_separator_unique:
  assumes n1: "\<not> sublist prompt_separator c1" and n2: "\<not> sublist prompt_separator c2"
    and eq: "c1 @ prompt_separator @ q1 = c2 @ prompt_separator @ q2"
  shows "c1 = c2 \<and> q1 = q2"
proof -
  have shape: "prompt_separator = CHR 0x0A # CHR 0x0A # ''Write a SQL query to answer: ''"
    by (simp add: prompt_separator_def newline_def)
  have a: "CHR 0x0A \<notin> set ''Write a SQL query to answer: ''" by simp
  have r: "''Write a SQL query to answer: '' \<noteq> []" by simp
  from eq have eq': "c1 @ CHR 0x0A # CHR 0x0A # ''Write a SQL query to answer: '' @ q1
      = c2 @ CHR 0x0A # CHR 0x0A # ''Write a SQL query to answer: '' @ q2"
    unfolding shape by simp
  from separator_unique [OF a r n1 [unfolded shape] n2 [unfolded shape] eq'] show ?thesis .
qed

lemma format_for_sft_Inr:
  "format_for_sft e = Inr r \<longleftrightarrow>
     (\<exists>c q a. e ''context'' = Some c \<and> e ''question'' = Some q \<and> e ''answer'' = Some a \<and>
        r = \<lparr>prompt = [\<lparr>role = ''user'',
                 content = ''Given the following SQL schema:'' @ newline @ c @ prompt_separator @ q\<rparr>],
             completion = [\<lparr>role = ''assistant'', content = a\<rparr>]\<rparr>)"
  by (auto simp: format_for_sft_def getitem_def prompt_separator_def split: option.splits)

lemma to_chat_format_Inr:
  "to_chat_format e = Inr r \<longleftrightarrow>
     (\<exists>c q a. e ''context'' = Some c \<and> e ''question'' = Some q \<and> e ''answer'' = Some a \<and>
        r = \<lparr>messages = [\<lparr>role = ''user'',
                 content = ''Given the following SQL schema:'' @ newline @ c @ prompt_separator @ q\<rparr>,
               \<lparr>role = ''assistant'', content = a\<rparr>]\<rparr>)"
  by (auto simp: to_chat_format_def getitem_def prompt_separator_def split: option.splits)

subsection \<open>Evaluation of the scripts\<close>

lemma try_except_apply:
  "try_except_RuntimeError body handler s =
     (case body s of
        (Inl (RuntimeError msg), s') \<Rightarrow> handler msg s'
      | (Inl e, s') \<Rightarrow> (Inl e, s')
      | (Inr v, s') \<Rightarrow> (Inr v, s'))"
  by (simp add: try_except_RuntimeError_def)

lemmas sql_defs = main_sql_def main_sql_training_def load_local_dataset_def load_hf_dataset_def
  load_jsonl_dataset_def convert_to_gguf_def run_with_filtered_stderr_def get_convert_script_def
  training_args_def get_device_info_def format_for_sft_def getitem_def

lemmas scenario_defs = sql_scenario_def mlx_scenario_def demo_sql_args_def demo_mlx_args_def
  initial_state_def linux_cuda_def linux_cpu_def mac_mps_def local_document_def row1_def
  row2_def row3_def jsonl_lines_def converter_stderr_def demo_trainer_def

text \<open>
  A converter process that ends with a return code other than 0 makes the helper raise
  \<open>CalledProcessError\<close> with that code and the command.
\<close>

lemma run_with_filtered_stderr_nonzero:
  "popen w cmd env = Inr proc \<Longrightarrow> returncode proc \<noteq> 0 \<Longrightarrow>
   fst (run_with_filtered_stderr w cmd env s) = Inl (CalledProcessError (returncode proc) cmd)"
  by (simp add: run_with_filtered_stderr_def stream_stdout_eq filter_stderr_eq prog_simps)

subsection \<open>The trace of calls\<close>

lemma emits_only_return [intro!]: "emits_only Q (return v)"
  by (simp add: emits_only_def return_apply)

lemma emits_only_raise [intro!]: "emits_only Q (raise e)"
  by (simp add: emits_only_def raise_apply)

lemma emits_only_lift [intro!]: "emits_only Q (lift r)"
  by (simp add: emits_only_def lift_apply)

lemma emits_only_print [intro!]: "emits_only Q (print x)"
  by (simp add: emits_only_def print_apply)

lemma emits_only_prints [intro!]: "emits_only Q (prints xs)"
  by (simp add: emits_only_def prints_eq)

lemma emits_only_stream_stdout [intro!]: "emits_only Q (stream_stdout xs)"
  by (simp add: emits_only_def stream_stdout_eq)

lemma emits_only_filter_stderr [intro!]: "emits_only Q (filter_stderr xs)"
  by (simp add: emits_only_def filter_stderr_eq)

lemma emits_only_call [intro!]: "Q eff \<Longrightarrow> emits_only Q (call eff r)"
  by (simp add: emits_only_def call_apply)

lemma emits_only_bind [intro!]:
  assumes m: "emits_only Q m" and k: "\<And>v. emits_only Q (k v)"
  shows "emits_only Q (bind m k)"
  unfolding emits_only_def
proof
  fix s
  from m obtain n1 where n1: "effects (snd (m s)) = effects s @ n1" "list_all Q n1"
    unfolding emits_only_def by blast
  show "\<exists>new. effects (snd (bind m k s)) = effects s @ new \<and> list_all Q new"
  proof (cases "m s")
    case (Pair r s')
    show ?thesis
    proof (cases r)
      case (Inl e)
      with Pair n1 show ?thesis by (auto simp: bind_apply)
    next
      case (Inr v)
      from k [of v] obtain n2 where n2: "effects (snd (k v s')) = effects s' @ n2" "list_all Q n2"
        unfolding emits_only_def by blast
      from Pair n1 have "effects s' = effects s @ n1" by simp
      with n2 have "effects (snd (k v s')) = effects s @ (n1 @ n2)" by simp
      moreover from n1 n2 have "list_all Q (n1 @ n2)" by simp
      ultimately show ?thesis using Pair Inr by (auto simp: bind_apply)
    qed
  qed
qed

lemma emits_only_seq [intro!]: "emits_only Q m \<Longrightarrow> emits_only Q k \<Longrightarrow> emits_only Q (seq m k)"
  unfolding seq_def by (rule emits_only_bind)

lemma emits_only_try [intro!]:
  assumes m: "emits_only Q m" and k: "\<And>v. emits_only Q (k v)"
  shows "emits_only Q (try_except_RuntimeError m k)"
  unfolding emits_only_def
proof
  fix s
  from m obtain n1 where n1: "effects (snd (m s)) = effects s @ n1" "list_all Q n1"
    unfolding emits_only_def by blast
  show "\<exists>new. effects (snd (try_except_RuntimeError m k s)) = effects s @ new \<and> list_all Q new"
  proof (cases "m s")
    case (Pair r s')
    show ?thesis
    proof (cases r)
      case (Inr v)
      with Pair n1 show ?thesis by (auto simp: try_except_apply)
    next
      case (Inl e)
      show ?thesis
      proof (cases "\<exists>msg. e = RuntimeError msg")
        case False
        with Pair Inl n1 show ?thesis by (cases e) (auto simp: try_except_apply)
      next
        case True
        then obtain msg where e: "e = RuntimeError msg" by blast
        from k [of msg] obtain n2 where n2: "effects (snd (k msg s')) = effects s' @ n2" "list_all Q n2"
          unfolding emits_only_def by blast
        from Pair n1 have "effects s' = effects s @ n1" by simp
        with n2 have "effects (snd (k msg s')) = effects s @ (n1 @ n2)" by simp
        moreover from n1 n2 have "list_all Q (n1 @ n2)" by simp
        ultimately show ?thesis using Pair Inl e by (auto simp: try_except_apply)
      qed
    qed
  qed
qed

lemma emits_only_if [intro!]:
  "emits_only Q a \<Longrightarrow> emits_only Q b \<Longrightarrow> emits_only Q (if c then a else b)"
  by simp

lemma emits_only_option [intro!]:
  "emits_only Q a \<Longrightarrow> (\<And>x. emits_only Q (f x)) \<Longrightarrow> emits_only Q (case v of None \<Rightarrow> a | Some x \<Rightarrow> f x)"
  by (cases v) simp_all

lemma emits_only_main_sql:
  assumes Q: "\<And>eff. (\<And>m cfg. eff \<noteq> CreateTrainer m cfg) \<Longrightarrow> Q eff"
    and T: "Q (CreateTrainer (sql_args.model args) (training_args args (get_device_info (platform w))))"
  shows "emits_only Q (main_sql w args)"
  unfolding main_sql_def main_sql_training_def load_local_dataset_def load_hf_dataset_def
    load_jsonl_dataset_def convert_to_gguf_def run_with_filtered_stderr_def
    get_convert_script_def Let_def
  by (intro emits_only_bind emits_only_seq emits_only_try emits_only_if emits_only_option
      emits_only_return emits_only_raise emits_only_lift emits_only_print emits_only_prints
      emits_only_stream_stdout emits_only_filter_stderr emits_only_call T Q) simp_all

section \<open>Failure of the GGUF converter (finetune\_sql.py)\<close>

text \<open>
  C1 says that a converter process ending with a non-zero code is caught in \<^verbatim>\<open>main\<close>,
  reported as a warning, and that the run still ends with status 0. The code does not do
  that: the helper raises \<open>CalledProcessError\<close>, the handler in \<^verbatim>\<open>main\<close> is
  \<^verbatim>\<open>except RuntimeError\<close>, and \<open>CalledProcessError\<close> is not a \<open>RuntimeError\<close>. Whenever the
  training part of \<^verbatim>\<open>main\<close> has succeeded, the conversion is wanted and
  \<^verbatim>\<open>convert_to_gguf\<close> raises \<open>CalledProcessError\<close>, the exception leaves \<^verbatim>\<open>main\<close>
  with the state the converter left (no warning, no summary) and the exit status is 1.
\<close>

theorem C1_converter_failure_escapes_main:
  assumes training: "main_sql_training w args s = (Inr final_path, s1)"
    and wanted: "\<not> sql_args.no_gguf args"
    and failed: "convert_to_gguf w final_path (final_path @ ''.gguf'') (gguf_type args)
        (s1\<lparr>stdout := stdout s1 @ [newline, ''Converting to GGUF format...'' @ newline]\<rparr>)
      = (Inl (CalledProcessError rc cmd), s2)"
  shows "main_sql w args s = (Inl (CalledProcessError rc cmd), s2)
     \<and> exit_code (fst (main_sql w args s)) = 1"
  using training wanted failed
  by (simp add: main_sql_def Let_def prog_simps prints_eq try_except_apply)

text \<open>
  C1, at a concrete input: Linux, x86-64, Docker present, the converter ends with code 1.
  The run ends with \<open>CalledProcessError\<close> and status 1; the last line printed is the
  converter's own output, and neither the warning nor the summary is printed.
\<close>

theorem C1_converter_failure_run:
  "fst (main_sql (sql_scenario linux_cuda 1) demo_sql_args initial_state) =
     Inl (CalledProcessError 1
        [''docker'', ''run'', ''--rm'',
         ''-e'', ''TOKENIZERS_PARALLELISM=false'',
         ''-e'', ''TRANSFORMERS_VERBOSITY=error'',
         ''-v'', ''/cwd/out-final:/model:ro'',
         ''-v'', ''/cwd:/output'',
         ''ghcr.io/ggml-org/llama.cpp:full'',
         ''python3'', ''/app/convert_hf_to_gguf.py'',
         ''/model'',
         ''--outfile'', ''/output/out-final.gguf'',
         ''--outtype'', ''q8_0''])
   \<and> exit_code (fst (main_sql (sql_scenario linux_cuda 1) demo_sql_args initial_state)) = 1
   \<and> stdout (snd (main_sql (sql_scenario linux_cuda 1) demo_sql_args initial_state)) =
       map (\<lambda>x. x @ newline)
        [rule_line 50,
         ''Full Supervised Fine-Tuning (SFT)'',
         rule_line 50,
         [],
         ''Device: cuda'',
         ''Model: Qwen/Qwen3-0.6B'',
         ''Epochs: 3'',
         ''Batch size: 4'',
         ''Learning rate: 2e-05'',
         ''Output: out'',
         ''Max samples: all'',
         ''bf16: True'',
         ''Gradient checkpointing: False'',
         [],
         ''Loading dataset from /repo/evals/sql-create-context/sql-create-context.json...'',
         ''Loaded 3 examples'',
         ''Formatting dataset for SFT...'',
         ''Train: 2 examples'',
         ''Eval: 1 examples'',
         [],
         ''Initializing trainer (full fine-tuning, all weights)...'',
         ''Starting training...'',
         [],
         ''Saving model to out-final...'',
         [],
         ''Converting to GGUF format...'',
         ''Using Docker image: ghcr.io/ggml-org/llama.cpp:full'',
         ''INFO: loading model'']
   \<and> stderr (snd (main_sql (sql_scenario linux_cuda 1) demo_sql_args initial_state)) =
       [''ValueError: unsupported tensor'' @ newline, ''conversion aborted'' @ newline]"
proof -
  let ?w = "sql_scenario linux_cuda 1"
  let ?s1 = "snd (main_sql_training ?w demo_sql_args initial_state)"
  let ?s2 = "snd (convert_to_gguf ?w ''out-final'' (''out-final'' @ ''.gguf'') (gguf_type demo_sql_args)
        (?s1\<lparr>stdout := stdout ?s1 @ [newline, ''Converting to GGUF format...'' @ newline]\<rparr>))"
  let ?cmd = "[''docker'', ''run'', ''--rm'',
         ''-e'', ''TOKENIZERS_PARALLELISM=false'',
         ''-e'', ''TRANSFORMERS_VERBOSITY=error'',
         ''-v'', ''/cwd/out-final:/model:ro'',
         ''-v'', ''/cwd:/output'',
         ''ghcr.io/ggml-org/llama.cpp:full'',
         ''python3'', ''/app/convert_hf_to_gguf.py'',
         ''/model'',
         ''--outfile'', ''/output/out-final.gguf'',
         ''--outtype'', ''q8_0'']"
  have "fst (main_sql_training ?w demo_sql_args initial_state) = Inr ''out-final''"
    by (simp add: sql_defs scenario_defs prog_simps prints_eq Let_def)
  then have training: "main_sql_training ?w demo_sql_args initial_state = (Inr ''out-final'', ?s1)"
    by (simp add: prod_eq_iff)
  have wanted: "\<not> sql_args.no_gguf demo_sql_args"
    by (simp add: demo_sql_args_def)
  have "fst (convert_to_gguf ?w ''out-final'' (''out-final'' @ ''.gguf'') (gguf_type demo_sql_args)
        (?s1\<lparr>stdout := stdout ?s1 @ [newline, ''Converting to GGUF format...'' @ newline]\<rparr>))
      = Inl (CalledProcessError 1 ?cmd)"
    by (simp add: convert_to_gguf_def run_with_filtered_stderr_def scenario_defs prog_simps
        prints_eq stream_stdout_eq filter_stderr_eq Let_def DOCKER_IMAGE_def)
  then have failed: "convert_to_gguf ?w ''out-final'' (''out-final'' @ ''.gguf'') (gguf_type demo_sql_args)
        (?s1\<lparr>stdout := stdout ?s1 @ [newline, ''Converting to GGUF format...'' @ newline]\<rparr>)
      = (Inl (CalledProcessError 1 ?cmd), ?s2)"
    by (simp add: prod_eq_iff)
  from C1_converter_failure_escapes_main [OF training wanted failed]
  have run: "main_sql ?w demo_sql_args initial_state = (Inl (CalledProcessError 1 ?cmd), ?s2)"
    and code: "exit_code (fst (main_sql ?w demo_sql_args initial_state)) = 1"
    by blast+
  have out: "stdout ?s2 = map (\<lambda>x. x @ newline)
        [rule_line 50,
         ''Full Supervised Fine-Tuning (SFT)'',
         rule_line 50,
         [],
         ''Device: cuda'',
         ''Model: Qwen/Qwen3-0.6B'',
         ''Epochs: 3'',
         ''Batch size: 4'',
         ''Learning rate: 2e-05'',
         ''Output: out'',
         ''Max samples: all'',
         ''bf16: True'',
         ''Gradient checkpointing: False'',
         [],
         ''Loading dataset from /repo/evals/sql-create-context/sql-create-context.json...'',
         ''Loaded 3 examples'',
         ''Formatting dataset for SFT...'',
         ''Train: 2 examples'',
         ''Eval: 1 examples'',
         [],
         ''Initializing trainer (full fine-tuning, all weights)...'',
         ''Starting training...'',
         [],
         ''Saving model to out-final...'',
         [],
         ''Converting to GGUF format...'',
         ''Using Docker image: ghcr.io/ggml-org/llama.cpp:full'',
         ''INFO: loading model'']"
    by (simp add: sql_defs scenario_defs prog_simps prints_eq stream_stdout_eq filter_stderr_eq
        Let_def DOCKER_IMAGE_def str_int_def str_nat.simps str_bool_def newline_def)
  have err: "stderr ?s2 = [''ValueError: unsupported tensor'' @ newline, ''conversion aborted'' @ newline]"
    by (simp add: sql_defs scenario_defs prog_simps prints_eq stream_stdout_eq filter_stderr_eq
        Let_def DOCKER_IMAGE_def filter_patterns_def sublist_Cons_right newline_def)
  from run code out err show ?thesis by simp
qed

section \<open>Device-profile selection\<close>

text \<open>
  C2, as stated, asks the precision-flag pairs (bf16, fp16) of the three profiles to be
  pairwise distinct. The profile of a Mac with the MPS accelerator and the profile of a
  machine with no accelerator carry the same pair (both flags false), so the claim as
  stated is false.
\<close>

theorem C2_precision_pairs_not_distinct:
  "\<not> (precision_flags (get_device_info mac_mps) \<noteq> precision_flags (get_device_info linux_cpu))"
  by (simp add: get_device_info_def precision_flags_def mac_mps_def linux_cpu_def)

text \<open>
  C2, amended: the selection is a function of the platform facts alone. On a Mac whose MPS
  accelerator is available it is the MPS profile (batch size 2, checkpointing on);
  otherwise, with CUDA available, it is the CUDA profile (batch size 4, bf16 true,
  checkpointing off); with neither it is the CPU profile (batch size 1, checkpointing on).
  The CUDA profile has the flags (True, False), every other profile has (False, False), and
  bf16 and fp16 are never both true.
\<close>

theorem C2_device_profile_selection:
  "(system pf = ''Darwin'' \<and> mps_is_available pf \<longrightarrow>
      get_device_info pf =
        \<lparr>device = ''mps'', device_info.bf16 = False, device_info.fp16 = False,
         default_batch_size = 2, device_info.gradient_checkpointing = True\<rparr>)
   \<and> (\<not> (system pf = ''Darwin'' \<and> mps_is_available pf) \<and> cuda_is_available pf \<longrightarrow>
      get_device_info pf =
        \<lparr>device = ''cuda'', device_info.bf16 = True, device_info.fp16 = False,
         default_batch_size = 4, device_info.gradient_checkpointing = False\<rparr>)
   \<and> (\<not> (system pf = ''Darwin'' \<and> mps_is_available pf) \<and> \<not> cuda_is_available pf \<longrightarrow>
      get_device_info pf =
        \<lparr>device = ''cpu'', device_info.bf16 = False, device_info.fp16 = False,
         default_batch_size = 1, device_info.gradient_checkpointing = True\<rparr>)
   \<and> (device (get_device_info pf) = ''cuda'' \<longrightarrow>
        precision_flags (get_device_info pf) = (True, False))
   \<and> (device (get_device_info pf) \<noteq> ''cuda'' \<longrightarrow>
        precision_flags (get_device_info pf) = (False, False))
   \<and> \<not> (device_info.bf16 (get_device_info pf) \<and> device_info.fp16 (get_device_info pf))"
  by (simp add: get_device_info_def precision_flags_def)

text \<open>C2, witness: the three branches of the selection on three concrete platforms.\<close>

theorem C2_device_profile_selection_witness:
  "get_device_info mac_mps =
     \<lparr>device = ''mps'', device_info.bf16 = False, device_info.fp16 = False,
      default_batch_size = 2, device_info.gradient_checkpointing = True\<rparr>
   \<and> get_device_info linux_cuda =
     \<lparr>device = ''cuda'', device_info.bf16 = True, device_info.fp16 = False,
      default_batch_size = 4, device_info.gradient_checkpointing = False\<rparr>
   \<and> get_device_info linux_cpu =
     \<lparr>device = ''cpu'', device_info.bf16 = False, device_info.fp16 = False,
      default_batch_size = 1, device_info.gradient_checkpointing = True\<rparr>
   \<and> precision_flags (get_device_info linux_cuda) = (True, False)
   \<and> precision_flags (get_device_info linux_cpu) = (False, False)"
proof -
  have mac: "system mac_mps = ''Darwin'' \<and> mps_is_available mac_mps"
    by (simp add: mac_mps_def)
  have cuda: "\<not> (system linux_cuda = ''Darwin'' \<and> mps_is_available linux_cuda)
      \<and> cuda_is_available linux_cuda"
    by (simp add: linux_cuda_def)
  have cpu: "\<not> (system linux_cpu = ''Darwin'' \<and> mps_is_available linux_cpu)
      \<and> \<not> cuda_is_available linux_cpu"
    by (simp add: linux_cpu_def)
  from C2_device_profile_selection [of mac_mps] mac
  have a: "get_device_info mac_mps =
     \<lparr>device = ''mps'', device_info.bf16 = False, device_info.fp16 = False,
      default_batch_size = 2, device_info.gradient_checkpointing = True\<rparr>"
    by blast
  from C2_device_profile_selection [of linux_cuda] cuda
  have b: "get_device_info linux_cuda =
     \<lparr>device = ''cuda'', device_info.bf16 = True, device_info.fp16 = False,
      default_batch_size = 4, device_info.gradient_checkpointing = False\<rparr>"
    by blast
  from C2_device_profile_selection [of linux_cpu] cpu
  have c: "get_device_info linux_cpu =
     \<lparr>device = ''cpu'', device_info.bf16 = False, device_info.fp16 = False,
      default_batch_size = 1, device_info.gradient_checkpointing = True\<rparr>"
    by blast
  have d: "precision_flags (get_device_info linux_cuda) = (True, False)"
    by (simp add: b precision_flags_def)
  have e: "precision_flags (get_device_info linux_cpu) = (False, False)"
    by (simp add: c precision_flags_def)
  from a b c d e show ?thesis by blast
qed

section \<open>The formatters\<close>

text \<open>
  C3: both formatters depend only on the three fields of the raw example, so applying one
  to the same raw example twice (or to two examples with the same schema, question and
  answer) gives identical records; and they are injective on well-formed input: two
  distinct (schema, question, answer) triples give distinct records. A raw example is
  well-formed when it has the three fields and its schema does not contain the text that
  the formatters themselves put between schema and question (two newlines followed by
  \<^verbatim>\<open>Write a SQL query to answer: \<close>).
\<close>

theorem C3_formatter_injective_without_separator:
  assumes "e1 ''context'' = Some c1" "e1 ''question'' = Some q1" "e1 ''answer'' = Some a1"
    and "e2 ''context'' = Some c2" "e2 ''question'' = Some q2" "e2 ''answer'' = Some a2"
  shows "(c1 = c2 \<and> q1 = q2 \<and> a1 = a2 \<longrightarrow>
            format_for_sft e1 = format_for_sft e2 \<and> to_chat_format e1 = to_chat_format e2)
       \<and> (\<not> sublist prompt_separator c1 \<and> \<not> sublist prompt_separator c2 \<and>
            (c1, q1, a1) \<noteq> (c2, q2, a2) \<longrightarrow>
            format_for_sft e1 \<noteq> format_for_sft e2 \<and> to_chat_format e1 \<noteq> to_chat_format e2)"
proof (intro conjI impI)
  assume "c1 = c2 \<and> q1 = q2 \<and> a1 = a2"
  with assms show "format_for_sft e1 = format_for_sft e2"
    by (simp add: format_for_sft_def getitem_def)
next
  assume "c1 = c2 \<and> q1 = q2 \<and> a1 = a2"
  with assms show "to_chat_format e1 = to_chat_format e2"
    by (simp add: to_chat_format_def getitem_def)
next
  assume h: "\<not> sublist prompt_separator c1 \<and> \<not> sublist prompt_separator c2 \<and>
            (c1, q1, a1) \<noteq> (c2, q2, a2)"
  show "format_for_sft e1 \<noteq> format_for_sft e2"
  proof
    assume eq: "format_for_sft e1 = format_for_sft e2"
    obtain r where r: "format_for_sft e1 = Inr r"
      using assms by (auto simp: format_for_sft_Inr)
    with eq have r2: "format_for_sft e2 = Inr r" by simp
    from r r2 assms have "c1 @ prompt_separator @ q1 = c2 @ prompt_separator @ q2" and "a1 = a2"
      by (auto simp: format_for_sft_Inr)
    with prompt_separator_unique [of c1 c2 q1 q2] h show False by auto
  qed
next
  assume h: "\<not> sublist prompt_separator c1 \<and> \<not> sublist prompt_separator c2 \<and>
            (c1, q1, a1) \<noteq> (c2, q2, a2)"
  show "to_chat_format e1 \<noteq> to_chat_format e2"
  proof
    assume eq: "to_chat_format e1 = to_chat_format e2"
    obtain r where r: "to_chat_format e1 = Inr r"
      using assms by (auto simp: to_chat_format_Inr)
    with eq have r2: "to_chat_format e2 = Inr r" by simp
    from r r2 assms have "c1 @ prompt_separator @ q1 = c2 @ prompt_separator @ q2" and "a1 = a2"
      by (auto simp: to_chat_format_Inr)
    with prompt_separator_unique [of c1 c2 q1 q2] h show False by auto
  qed
qed

text \<open>
  C3, witness: two rows of the scenario give different records, and an extra column
  changes neither record.
\<close>

theorem C3_formatter_witness:
  "format_for_sft row1 \<noteq> format_for_sft row2
   \<and> to_chat_format row1 \<noteq> to_chat_format row2
   \<and> format_for_sft row1 = format_for_sft (row1(''id'' \<mapsto> ''7''))
   \<and> to_chat_format row1 = to_chat_format (row1(''id'' \<mapsto> ''7''))"
proof -
  have r1: "row1 ''context'' = Some ''CREATE TABLE t (a INT)''"
    "row1 ''question'' = Some ''How many rows?''"
    "row1 ''answer'' = Some ''SELECT COUNT(*) FROM t''"
    by (simp_all add: row1_def)
  have r2: "row2 ''context'' = Some ''CREATE TABLE u (b INT)''"
    "row2 ''question'' = Some ''Largest b?''"
    "row2 ''answer'' = Some ''SELECT MAX(b) FROM u''"
    by (simp_all add: row2_def)
  have r3: "(row1(''id'' \<mapsto> ''7'')) ''context'' = Some ''CREATE TABLE t (a INT)''"
    "(row1(''id'' \<mapsto> ''7'')) ''question'' = Some ''How many rows?''"
    "(row1(''id'' \<mapsto> ''7'')) ''answer'' = Some ''SELECT COUNT(*) FROM t''"
    by (simp_all add: row1_def)
  have n1: "\<not> sublist prompt_separator ''CREATE TABLE t (a INT)''"
    by (simp add: prompt_separator_def newline_def sublist_Cons_right)
  have n2: "\<not> sublist prompt_separator ''CREATE TABLE u (b INT)''"
    by (simp add: prompt_separator_def newline_def sublist_Cons_right)
  have d: "(''CREATE TABLE t (a INT)'', ''How many rows?'', ''SELECT COUNT(*) FROM t'')
      \<noteq> (''CREATE TABLE u (b INT)'', ''Largest b?'', ''SELECT MAX(b) FROM u'')"
    by simp
  from C3_formatter_injective_without_separator [OF r1 r2] n1 n2 d
  have a: "format_for_sft row1 \<noteq> format_for_sft row2 \<and> to_chat_format row1 \<noteq> to_chat_format row2"
    by blast
  from C3_formatter_injective_without_separator [OF r1 r3]
  have b: "format_for_sft row1 = format_for_sft (row1(''id'' \<mapsto> ''7''))
      \<and> to_chat_format row1 = to_chat_format (row1(''id'' \<mapsto> ''7''))"
    by blast
  from a b show ?thesis by blast
qed

text \<open>
  Remark. The condition on the schema is needed: the fields are pasted verbatim, so on
  malformed input, where the schema carries the separator, two triples can share a record.
\<close>

lemma separator_in_schema_collides:
  "(''T(a)'' @ prompt_separator @ ''x?'', ''y?'', ''SELECT a'')
      \<noteq> (''T(a)'', ''x?'' @ prompt_separator @ ''y?'', ''SELECT a'')
   \<and> format_for_sft [''context'' \<mapsto> ''T(a)'' @ prompt_separator @ ''x?'',
                      ''question'' \<mapsto> ''y?'', ''answer'' \<mapsto> ''SELECT a'']
     = format_for_sft [''context'' \<mapsto> ''T(a)'',
                      ''question'' \<mapsto> ''x?'' @ prompt_separator @ ''y?'',
                      ''answer'' \<mapsto> ''SELECT a'']
   \<and> to_chat_format [''context'' \<mapsto> ''T(a)'' @ prompt_separator @ ''x?'',
                      ''question'' \<mapsto> ''y?'', ''answer'' \<mapsto> ''SELECT a'']
     = to_chat_format [''context'' \<mapsto> ''T(a)'',
                      ''question'' \<mapsto> ''x?'' @ prompt_separator @ ''y?'',
                      ''answer'' \<mapsto> ''SELECT a'']"
  by (simp add: format_for_sft_def to_chat_format_def getitem_def prompt_separator_def newline_def)

section \<open>The sample cap\<close>

text \<open>
  C5, as stated, promises min(cap, N) records for every value of the cap. With the cap 0
  the loaders return all N rows (here 3), not the first min(0, 3) = 0 rows: the claim as
  stated is false.
\<close>

theorem C5_zero_cap_returns_every_row:
  "fst (load_local_dataset (sql_scenario linux_cuda 0) ''data.json'' (Some 0) initial_state)
     = Inr [row1, row2, row3]
   \<and> fst (load_local_dataset (sql_scenario linux_cuda 0) ''data.json'' (Some 0) initial_state)
     \<noteq> Inr (take (nat (min 0 3)) [row1, row2, row3])"
  by (simp add: load_local_dataset_def getitem_def sql_scenario_def local_document_def prog_simps)

text \<open>
  C5, amended: for every source (the JSONL loader, the local JSON loader and the registry
  loader of finetune\_sql.py, the local and the registry branch of \<^verbatim>\<open>prepare_data\<close> in
  finetune\_mlx.py) and every positive sample cap, a load that succeeds yields exactly the
  first min(cap, N) rows of the source, in their order.

  The JSONL loader parses every non-blank line before it cuts, so it succeeds exactly when
  all of them parse; the registry loaders succeed when the download does. The two local
  JSON loaders cut first and read \<^verbatim>\<open>row["row"]\<close> of the first min(cap, N) rows only: their
  result is the extraction over those rows, whatever the later rows hold, and when it is a
  list of examples, that list has min(cap, N) elements, the \<^verbatim>\<open>row\<close> fields of the first
  min(cap, N) rows in order.
\<close>

theorem C5_positive_cap_keeps_first_rows:
  fixes w :: "'r sql_world" and v :: mlx_world
  assumes "0 < n"
  shows
    "(open_lines w path = Inr f \<longrightarrow>
      map_raising (json_loads w) (filter (\<lambda>line. strip line \<noteq> []) f) = Inr data \<longrightarrow>
      fst (load_jsonl_dataset w path (Some n) s) = Inr (take (min (nat n) (length data)) data))
   \<and> (json_load w json_path = Inr doc \<longrightarrow> doc ''rows'' = Some rows \<longrightarrow>
      fst (load_local_dataset w json_path (Some n) s)
        = map_raising (\<lambda>row. getitem row ''row'') (take (min (nat n) (length rows)) rows))
   \<and> (json_load w json_path = Inr doc \<longrightarrow> doc ''rows'' = Some rows \<longrightarrow>
      fst (load_local_dataset w json_path (Some n) s) = Inr examples \<longrightarrow>
      length examples = min (nat n) (length rows)
      \<and> map Some examples = map (\<lambda>row. row ''row'') (take (min (nat n) (length rows)) rows))
   \<and> (load_dataset w ''b-mc2/sql-create-context'' = Inr dataset \<longrightarrow>
      fst (load_hf_dataset w (Some n) s) = Inr (take (min (nat n) (length dataset)) dataset))
   \<and> (json_load v (path_div v (path_div v (path_div v (path_parent v (script_dir v)) ''evals'')
          ''sql-create-context'') ''sql-create-context.json'') = Inr doc \<longrightarrow>
      doc ''rows'' = Some rows \<longrightarrow>
      fst (prepare_data_load v (Some n) False s)
        = map_raising (\<lambda>row. getitem row ''row'') (take (min (nat n) (length rows)) rows))
   \<and> (json_load v (path_div v (path_div v (path_div v (path_parent v (script_dir v)) ''evals'')
          ''sql-create-context'') ''sql-create-context.json'') = Inr doc \<longrightarrow>
      doc ''rows'' = Some rows \<longrightarrow>
      fst (prepare_data_load v (Some n) False s) = Inr examples \<longrightarrow>
      length examples = min (nat n) (length rows)
      \<and> map Some examples = map (\<lambda>row. row ''row'') (take (min (nat n) (length rows)) rows))
   \<and> (load_dataset v ''b-mc2/sql-create-context'' = Inr dataset \<longrightarrow>
      fst (prepare_data_load v (Some n) True s)
        = Inr (take (min (nat n) (length dataset)) dataset))"
proof -
  have pos: "n \<noteq> 0" and cap: "\<And>xs :: 'x list. slice_to xs n = take (nat n) xs"
    using assms by (simp_all add: slice_to_pos)
  have range: "\<And>ds :: example list.
      select ds (py_range (min n (int (length ds)))) = Inr (take (min (nat n) (length ds)) ds)"
  proof -
    fix ds :: "example list"
    have "nat (min n (int (length ds))) = min (nat n) (length ds)"
      using assms by simp
    then show "select ds (py_range (min n (int (length ds)))) = Inr (take (min (nat n) (length ds)) ds)"
      by (simp add: py_range_def select_range)
  qed
  have first: "\<And>(rows :: (string \<rightharpoonup> example) list) examples.
      map_raising (\<lambda>row. getitem row ''row'') (take (min (nat n) (length rows)) rows) = Inr examples \<Longrightarrow>
      length examples = min (nat n) (length rows)
      \<and> map Some examples = map (\<lambda>row. row ''row'') (take (min (nat n) (length rows)) rows)"
  proof -
    fix rows :: "(string \<rightharpoonup> example) list" and examples
    assume "map_raising (\<lambda>row. getitem row ''row'') (take (min (nat n) (length rows)) rows) = Inr examples"
    from map_raising_getitem_Inr [OF this] show "length examples = min (nat n) (length rows)
      \<and> map Some examples = map (\<lambda>row. row ''row'') (take (min (nat n) (length rows)) rows)"
      by simp
  qed
  have jsonl: "open_lines w path = Inr f \<longrightarrow>
      map_raising (json_loads w) (filter (\<lambda>line. strip line \<noteq> []) f) = Inr data \<longrightarrow>
      fst (load_jsonl_dataset w path (Some n) s) = Inr (take (min (nat n) (length data)) data)"
    by (simp add: load_jsonl_dataset_def prog_simps pos cap take_min_length)
  have local: "json_load w json_path = Inr doc \<longrightarrow> doc ''rows'' = Some rows \<longrightarrow>
      fst (load_local_dataset w json_path (Some n) s)
        = map_raising (\<lambda>row. getitem row ''row'') (take (min (nat n) (length rows)) rows)"
    by (simp add: load_local_dataset_def prog_simps pos cap getitem_def take_min_length)
  have local_ok: "json_load w json_path = Inr doc \<longrightarrow> doc ''rows'' = Some rows \<longrightarrow>
      fst (load_local_dataset w json_path (Some n) s) = Inr examples \<longrightarrow>
      length examples = min (nat n) (length rows)
      \<and> map Some examples = map (\<lambda>row. row ''row'') (take (min (nat n) (length rows)) rows)"
  proof (intro impI)
    assume a: "json_load w json_path = Inr doc" and b: "doc ''rows'' = Some rows"
      and c: "fst (load_local_dataset w json_path (Some n) s) = Inr examples"
    from local a b c
    have "map_raising (\<lambda>row. getitem row ''row'') (take (min (nat n) (length rows)) rows) = Inr examples"
      by simp
    from first [OF this] show "length examples = min (nat n) (length rows)
      \<and> map Some examples = map (\<lambda>row. row ''row'') (take (min (nat n) (length rows)) rows)" .
  qed
  have hf: "load_dataset w ''b-mc2/sql-create-context'' = Inr dataset \<longrightarrow>
      fst (load_hf_dataset w (Some n) s) = Inr (take (min (nat n) (length dataset)) dataset)"
    by (simp add: load_hf_dataset_def prog_simps pos range)
  have mlx_local: "json_load v (path_div v (path_div v (path_div v (path_parent v (script_dir v)) ''evals'')
          ''sql-create-context'') ''sql-create-context.json'') = Inr doc \<longrightarrow>
      doc ''rows'' = Some rows \<longrightarrow>
      fst (prepare_data_load v (Some n) False s)
        = map_raising (\<lambda>row. getitem row ''row'') (take (min (nat n) (length rows)) rows)"
    by (simp add: prepare_data_load_def Let_def prog_simps pos cap getitem_def take_min_length)
  have mlx_local_ok: "json_load v (path_div v (path_div v (path_div v (path_parent v (script_dir v)) ''evals'')
          ''sql-create-context'') ''sql-create-context.json'') = Inr doc \<longrightarrow>
      doc ''rows'' = Some rows \<longrightarrow>
      fst (prepare_data_load v (Some n) False s) = Inr examples \<longrightarrow>
      length examples = min (nat n) (length rows)
      \<and> map Some examples = map (\<lambda>row. row ''row'') (take (min (nat n) (length rows)) rows)"
  proof (intro impI)
    assume a: "json_load v (path_div v (path_div v (path_div v (path_parent v (script_dir v)) ''evals'')
          ''sql-create-context'') ''sql-create-context.json'') = Inr doc"
      and b: "doc ''rows'' = Some rows"
      and c: "fst (prepare_data_load v (Some n) False s) = Inr examples"
    from mlx_local a b c
    have "map_raising (\<lambda>row. getitem row ''row'') (take (min (nat n) (length rows)) rows) = Inr examples"
      by simp
    from first [OF this] show "length examples = min (nat n) (length rows)
      \<and> map Some examples = map (\<lambda>row. row ''row'') (take (min (nat n) (length rows)) rows)" .
  qed
  have mlx_hf: "load_dataset v ''b-mc2/sql-create-context'' = Inr dataset \<longrightarrow>
      fst (prepare_data_load v (Some n) True s)
        = Inr (take (min (nat n) (length dataset)) dataset)"
    by (simp add: prepare_data_load_def prog_simps pos range)
  from jsonl local local_ok hf mlx_local mlx_local_ok mlx_hf show ?thesis by blast
qed

text \<open>
  C5, witness: the five loaders with caps 2, 2, 5, 1 and 2. The JSONL file and the registry
  hold three rows. The local document holds three rows of which the third lacks the key
  \<^verbatim>\<open>row\<close>: with a cap of 2 or 1 the load succeeds and yields the first rows.
\<close>

theorem C5_positive_cap_witness:
  "fst (load_jsonl_dataset (sql_scenario linux_cuda 0) ''train.jsonl'' (Some 2) initial_state)
     = Inr [''{1}'', ''{2}'']
   \<and> fst (load_local_dataset
           ((sql_scenario linux_cuda 0)\<lparr>json_load := \<lambda>p. Inr ragged_document\<rparr>)
           ''data.json'' (Some 2) initial_state)
     = Inr [row1, row2]
   \<and> length [row1, row2]
     = min (nat 2) (length [[''row'' \<mapsto> row1], [''row'' \<mapsto> row2], Map.empty])
   \<and> fst (load_hf_dataset (sql_scenario linux_cuda 0) (Some 5) initial_state)
     = Inr [row1, row2, row3]
   \<and> fst (prepare_data_load
           ((mlx_scenario mac_mps False)\<lparr>json_load := \<lambda>p. Inr ragged_document\<rparr>)
           (Some 1) False initial_state)
     = Inr [row1]
   \<and> length [row1]
     = min (nat 1) (length [[''row'' \<mapsto> row1], [''row'' \<mapsto> row2], Map.empty])
   \<and> fst (prepare_data_load (mlx_scenario mac_mps False) (Some 2) True initial_state)
     = Inr [row1, row2]"
proof -
  let ?w = "sql_scenario linux_cuda 0" and ?v = "mlx_scenario mac_mps False"
  let ?w' = "(sql_scenario linux_cuda 0)\<lparr>json_load := \<lambda>p. Inr ragged_document\<rparr>"
  let ?v' = "(mlx_scenario mac_mps False)\<lparr>json_load := \<lambda>p. Inr ragged_document\<rparr>"
  let ?rows = "[[''row'' \<mapsto> row1], [''row'' \<mapsto> row2], Map.empty] :: (string \<rightharpoonup> example) list"
  have rows: "ragged_document ''rows'' = Some ?rows"
    by (simp add: ragged_document_def)
  have f: "open_lines ?w ''train.jsonl'' = Inr jsonl_lines"
    by (simp add: sql_scenario_def)
  have data: "map_raising (json_loads ?w) (filter (\<lambda>line. strip line \<noteq> []) jsonl_lines)
      = Inr [''{1}'', ''{2}'', ''{3}'']"
    by (simp add: sql_scenario_def jsonl_lines_def strip_def isspace_def newline_def)
  have doc: "json_load ?w' ''data.json'' = Inr ragged_document"
    by simp
  have hub: "load_dataset ?w ''b-mc2/sql-create-context'' = Inr [row1, row2, row3]"
    by (simp add: sql_scenario_def)
  have vdoc: "json_load ?v' (path_div ?v' (path_div ?v' (path_div ?v' (path_parent ?v' (script_dir ?v'))
      ''evals'') ''sql-create-context'') ''sql-create-context.json'') = Inr ragged_document"
    by simp
  have vhub: "load_dataset ?v ''b-mc2/sql-create-context'' = Inr [row1, row2, row3]"
    by (simp add: mlx_scenario_def)
  have p2: "(0::int) < 2" and p5: "(0::int) < 5" and p1: "(0::int) < 1" by simp_all
  note inst = C5_positive_cap_keeps_first_rows [where w = ?w and v = ?v
      and path = "''train.jsonl''" and f = jsonl_lines and data = "[''{1}'', ''{2}'', ''{3}'']"
      and json_path = "''data.json''" and doc = ragged_document and rows = ?rows
      and dataset = "[row1, row2, row3]" and s = initial_state]
  note inst' = C5_positive_cap_keeps_first_rows [where w = ?w' and v = ?v'
      and path = "''train.jsonl''" and f = jsonl_lines and data = "[''{1}'', ''{2}'', ''{3}'']"
      and json_path = "''data.json''" and doc = ragged_document and rows = ?rows
      and dataset = "[row1, row2, row3]" and s = initial_state]
  from inst [OF p2, of "[]"] f data
  have a: "fst (load_jsonl_dataset ?w ''train.jsonl'' (Some 2) initial_state) = Inr [''{1}'', ''{2}'']"
    by simp
  from inst' [OF p2, of "[row1, row2]"] doc rows
  have b: "fst (load_local_dataset ?w' ''data.json'' (Some 2) initial_state) = Inr [row1, row2]"
    by (simp add: getitem_def)
  from inst' [OF p2, of "[row1, row2]"] doc rows b
  have b': "length [row1, row2] = min (nat 2) (length ?rows)"
    by blast
  from inst [OF p5, of "[]"] hub
  have c: "fst (load_hf_dataset ?w (Some 5) initial_state) = Inr [row1, row2, row3]"
    by simp
  from inst' [OF p1, of "[row1]"] vdoc rows
  have d: "fst (prepare_data_load ?v' (Some 1) False initial_state) = Inr [row1]"
    by (simp add: getitem_def)
  from inst' [OF p1, of "[row1]"] vdoc rows d
  have d': "length [row1] = min (nat 1) (length ?rows)"
    by blast
  from inst [OF p2, of "[]"] vhub
  have e: "fst (prepare_data_load ?v (Some 2) True initial_state) = Inr [row1, row2]"
    by simp
  from a b b' c d d' e show ?thesis by blast
qed

section \<open>Filtering of the converter's standard error\<close>

text \<open>
  C6: when the converter process has been started, the lines written to the parent's
  standard error are exactly the lines of the child's standard error that contain none of
  the five fixed substrings, unchanged and in their order; the lines that contain one of
  them are dropped.
\<close>

theorem C6_stderr_filter:
  "popen w cmd env = Inr proc \<Longrightarrow>
   stderr (snd (run_with_filtered_stderr w cmd env s)) =
     stderr s @ filter (\<lambda>line. \<not> (sublist ''incorrect regex pattern'' line
          \<or> sublist ''huggingface/tokenizers: The current process just got forked'' line
          \<or> sublist ''To disable this warning'' line
          \<or> sublist (''Avoid using '' @ [CHR 0x60] @ ''tokenizers'' @ [CHR 0x60] @ '' before the fork'') line
          \<or> sublist ''Explicitly set the environment variable TOKENIZERS_PARALLELISM'' line)) (proc_stderr proc)"
  by (simp add: run_with_filtered_stderr_def filter_stderr_eq stream_stdout_eq prog_simps filter_patterns_def)

text \<open>
  C6, witness: of the four lines of the scenario's converter, the two that contain a
  pattern are dropped and the other two are forwarded in order.
\<close>

theorem C6_stderr_filter_witness:
  "stderr (snd (run_with_filtered_stderr (sql_scenario linux_cuda 1) [''convert''] Map.empty initial_state))
     = [''ValueError: unsupported tensor'' @ newline, ''conversion aborted'' @ newline]"
proof -
  have "popen (sql_scenario linux_cuda 1) [''convert''] Map.empty =
      Inr \<lparr>proc_stdout = [''INFO: loading model'' @ newline],
           proc_stderr = converter_stderr, returncode = 1\<rparr>"
    by (simp add: sql_scenario_def)
  from C6_stderr_filter [OF this, of initial_state] show ?thesis
    by (simp add: initial_state_def converter_stderr_def newline_def sublist_Cons_right)
qed

section \<open>Unsupported platform (finetune\_mlx.py)\<close>

text \<open>
  C7: when \<^verbatim>\<open>platform.system()\<close> is not \<^verbatim>\<open>Darwin\<close>, \<^verbatim>\<open>main\<close> prints the nine
  diagnostic lines and ends with \<open>SystemExit 1\<close>: the exit status is 1, nothing else is
  printed, and the trace of calls is unchanged, so no dataset is loaded, no file is written
  and no process is started.
\<close>

theorem C7_unsupported_platform_exits_first:
  "system (platform w) \<noteq> ''Darwin'' \<Longrightarrow>
   main_mlx w args s =
     (Inl (SystemExit 1),
      s\<lparr>stdout := stdout s @ map (\<lambda>x. x @ newline)
         [rule_line 60,
          ''ERROR: Not running on macOS'',
          rule_line 60,
          [],
          ''MLX requires macOS with Apple Silicon (M1/M2/M3/M4).'',
          [],
          ''For other platforms, use:'',
          ''  - Linux/Windows with NVIDIA GPU: finetune_sql.py'',
          []]\<rparr>)
   \<and> exit_code (fst (main_mlx w args s)) = 1
   \<and> effects (snd (main_mlx w args s)) = effects s
   \<and> stderr (snd (main_mlx w args s)) = stderr s"
  by (simp add: main_mlx_def main_mlx_steps12_def check_apple_silicon_def prints_eq prog_simps)

text \<open>
  C7, witness: the run on a Linux machine.
\<close>

theorem C7_unsupported_platform_witness:
  "main_mlx (mlx_scenario linux_cuda False) demo_mlx_args initial_state =
     (Inl (SystemExit 1),
      \<lparr>stdout = map (\<lambda>x. x @ newline)
         [rule_line 60,
          ''ERROR: Not running on macOS'',
          rule_line 60,
          [],
          ''MLX requires macOS with Apple Silicon (M1/M2/M3/M4).'',
          [],
          ''For other platforms, use:'',
          ''  - Linux/Windows with NVIDIA GPU: finetune_sql.py'',
          []],
       stderr = [], effects = []\<rparr>)
   \<and> exit_code (fst (main_mlx (mlx_scenario linux_cuda False) demo_mlx_args initial_state)) = 1"
proof -
  have "system (platform (mlx_scenario linux_cuda False)) \<noteq> ''Darwin''"
    by (simp add: mlx_scenario_def linux_cuda_def)
  from C7_unsupported_platform_exits_first [OF this, of demo_mlx_args initial_state] show ?thesis
    by (simp add: initial_state_def)
qed

section \<open>The training configuration (finetune\_sql.py)\<close>

text \<open>
  C8: whatever the options and the world, every trainer that \<^verbatim>\<open>main\<close> creates gets a
  configuration with gradient accumulation 4, maximum length 512, the cosine schedule,
  warmup ratio 0.1, no checkpoint saving and no intermediate evaluation, and with the
  checkpointing and precision flags of the device profile.
\<close>

theorem C8_training_configuration_is_fixed:
  assumes created: "CreateTrainer m cfg \<in> set (effects (snd (main_sql w args s)))"
    and fresh: "CreateTrainer m cfg \<notin> set (effects s)"
  shows "gradient_accumulation_steps cfg = 4
     \<and> max_length cfg = 512
     \<and> lr_scheduler_type cfg = ''cosine''
     \<and> warmup_ratio cfg = 0.1
     \<and> save_strategy cfg = ''no''
     \<and> eval_strategy cfg = ''no''
     \<and> sft_config.gradient_checkpointing cfg
         = device_info.gradient_checkpointing (get_device_info (platform w))
     \<and> sft_config.bf16 cfg = device_info.bf16 (get_device_info (platform w))
     \<and> sft_config.fp16 cfg = device_info.fp16 (get_device_info (platform w))"
proof -
  let ?Q = "\<lambda>eff. \<forall>m cfg. eff = CreateTrainer m cfg \<longrightarrow>
      cfg = training_args args (get_device_info (platform w))"
  have "emits_only ?Q (main_sql w args)"
    by (rule emits_only_main_sql) simp_all
  then obtain new where new: "effects (snd (main_sql w args s)) = effects s @ new"
    and all: "list_all ?Q new"
    unfolding emits_only_def by blast
  from created fresh new have "CreateTrainer m cfg \<in> set new" by simp
  with all have "cfg = training_args args (get_device_info (platform w))"
    by (simp add: list_all_iff)
  then show ?thesis by (simp add: training_args_def)
qed

text \<open>
  C8, witness: the trainer created in the scenario's run on a CUDA machine.
\<close>

theorem C8_training_configuration_witness:
  "CreateTrainer ''Qwen/Qwen3-0.6B''
      \<lparr>sft_config.output_dir = ''out'', num_train_epochs = 3,
       per_device_train_batch_size = 4, per_device_eval_batch_size = 4,
       gradient_accumulation_steps = 4, gradient_checkpointing = False,
       learning_rate = 0.00002, bf16 = True, fp16 = False,
       logging_steps = 10, save_strategy = ''no'', eval_strategy = ''no'',
       max_length = 512, warmup_ratio = 0.1, lr_scheduler_type = ''cosine'',
       report_to = ''none'', dataloader_pin_memory = True\<rparr>
     \<in> set (effects (snd (main_sql (sql_scenario linux_cuda 0) demo_sql_args initial_state)))
   \<and> device_info.gradient_checkpointing
       (get_device_info (platform (sql_scenario linux_cuda 0))) = False
   \<and> device_info.bf16 (get_device_info (platform (sql_scenario linux_cuda 0))) = True
   \<and> device_info.fp16 (get_device_info (platform (sql_scenario linux_cuda 0))) = False"
proof -
  let ?cfg = "\<lparr>sft_config.output_dir = ''out'', num_train_epochs = 3,
       per_device_train_batch_size = 4, per_device_eval_batch_size = 4,
       gradient_accumulation_steps = 4, gradient_checkpointing = False,
       learning_rate = 0.00002, bf16 = True, fp16 = False,
       logging_steps = 10, save_strategy = ''no'', eval_strategy = ''no'',
       max_length = 512, warmup_ratio = 0.1, lr_scheduler_type = ''cosine'',
       report_to = ''none'', dataloader_pin_memory = True\<rparr>"
  have created: "CreateTrainer ''Qwen/Qwen3-0.6B'' ?cfg
      \<in> set (effects (snd (main_sql (sql_scenario linux_cuda 0) demo_sql_args initial_state)))"
    by (simp add: sql_defs scenario_defs prog_simps prints_eq stream_stdout_eq filter_stderr_eq
        try_except_apply Let_def DOCKER_IMAGE_def)
  have fresh: "CreateTrainer ''Qwen/Qwen3-0.6B'' ?cfg \<notin> set (effects initial_state)"
    by (simp add: initial_state_def)
  from C8_training_configuration_is_fixed [OF created fresh] created show ?thesis by simp
qed

section \<open>A sample cap of zero\<close>

text \<open>
  C9: the cap is tested for truth, so a cap of 0 is no cap: with \<^verbatim>\<open>max_samples = 0\<close>
  each of the five loaders returns all rows of the source whenever the load succeeds.
\<close>

theorem C9_zero_cap_keeps_all_rows:
  fixes w :: "'r sql_world" and v :: mlx_world
  shows
    "(open_lines w path = Inr f \<longrightarrow>
      map_raising (json_loads w) (filter (\<lambda>line. strip line \<noteq> []) f) = Inr data \<longrightarrow>
      fst (load_jsonl_dataset w path (Some 0) s) = Inr data)
   \<and> (json_load w json_path = Inr doc \<longrightarrow> doc ''rows'' = Some rows \<longrightarrow>
      map_raising (\<lambda>row. getitem row ''row'') rows = Inr examples \<longrightarrow>
      fst (load_local_dataset w json_path (Some 0) s) = Inr examples)
   \<and> (load_dataset w ''b-mc2/sql-create-context'' = Inr dataset \<longrightarrow>
      fst (load_hf_dataset w (Some 0) s) = Inr dataset)
   \<and> (json_load v (path_div v (path_div v (path_div v (path_parent v (script_dir v)) ''evals'')
          ''sql-create-context'') ''sql-create-context.json'') = Inr doc \<longrightarrow>
      doc ''rows'' = Some rows \<longrightarrow>
      map_raising (\<lambda>row. getitem row ''row'') rows = Inr examples \<longrightarrow>
      fst (prepare_data_load v (Some 0) False s) = Inr examples)
   \<and> (load_dataset v ''b-mc2/sql-create-context'' = Inr dataset \<longrightarrow>
      fst (prepare_data_load v (Some 0) True s) = Inr dataset)"
  by (simp add: load_jsonl_dataset_def load_local_dataset_def load_hf_dataset_def
        prepare_data_load_def Let_def prog_simps getitem_def)

text \<open>
  C9, witness: the five loaders on the scenario's three rows with the cap 0.
\<close>

theorem C9_zero_cap_witness:
  "fst (load_jsonl_dataset (sql_scenario linux_cuda 0) ''train.jsonl'' (Some 0) initial_state)
     = Inr [''{1}'', ''{2}'', ''{3}'']
   \<and> fst (load_local_dataset (sql_scenario linux_cuda 0) ''data.json'' (Some 0) initial_state)
     = Inr [row1, row2, row3]
   \<and> fst (load_hf_dataset (sql_scenario linux_cuda 0) (Some 0) initial_state)
     = Inr [row1, row2, row3]
   \<and> fst (prepare_data_load (mlx_scenario mac_mps False) (Some 0) False initial_state)
     = Inr [row1, row2, row3]
   \<and> fst (prepare_data_load (mlx_scenario mac_mps False) (Some 0) True initial_state)
     = Inr [row1, row2, row3]"
proof -
  let ?w = "sql_scenario linux_cuda 0" and ?v = "mlx_scenario mac_mps False"
  have rows: "local_document ''rows'' = Some [[''row'' \<mapsto> row1], [''row'' \<mapsto> row2], [''row'' \<mapsto> row3]]"
    by (simp add: local_document_def)
  have ex: "map_raising (\<lambda>row. getitem row ''row'')
      [[''row'' \<mapsto> row1], [''row'' \<mapsto> row2], [''row'' \<mapsto> row3]] = Inr [row1, row2, row3]"
    by (simp add: getitem_def)
  have f: "open_lines ?w ''train.jsonl'' = Inr jsonl_lines"
    by (simp add: sql_scenario_def)
  have data: "map_raising (json_loads ?w) (filter (\<lambda>line. strip line \<noteq> []) jsonl_lines)
      = Inr [''{1}'', ''{2}'', ''{3}'']"
    by (simp add: sql_scenario_def jsonl_lines_def strip_def isspace_def newline_def)
  have doc: "json_load ?w ''data.json'' = Inr local_document"
    by (simp add: sql_scenario_def)
  have hub: "load_dataset ?w ''b-mc2/sql-create-context'' = Inr [row1, row2, row3]"
    by (simp add: sql_scenario_def)
  have vdoc: "json_load ?v (path_div ?v (path_div ?v (path_div ?v (path_parent ?v (script_dir ?v))
      ''evals'') ''sql-create-context'') ''sql-create-context.json'') = Inr local_document"
    by (simp add: mlx_scenario_def)
  have vhub: "load_dataset ?v ''b-mc2/sql-create-context'' = Inr [row1, row2, row3]"
    by (simp add: mlx_scenario_def)
  from C9_zero_cap_keeps_all_rows [where w = ?w and v = ?v and path = "''train.jsonl''"
      and f = jsonl_lines and data = "[''{1}'', ''{2}'', ''{3}'']" and json_path = "''data.json''"
      and doc = local_document and rows = "[[''row'' \<mapsto> row1], [''row'' \<mapsto> row2], [''row'' \<mapsto> row3]]"
      and examples = "[row1, row2, row3]" and dataset = "[row1, row2, row3]" and s = initial_state]
    f data doc hub vdoc vhub rows ex
  show ?thesis by blast
qed

section \<open>A missing GGUF file after fusing (finetune\_mlx.py)\<close>

text \<open>
  C10: when the export is requested, the fuse process ends with code 0 and the file
  \<^verbatim>\<open>ggml-model-f16.gguf\<close> is absent from the fused-model directory, \<^verbatim>\<open>fuse_and_export\<close>
  returns the fused path with \<^verbatim>\<open>None\<close>, raising nothing and printing only its three
  lines; \<^verbatim>\<open>main\<close> then prints the summary without a GGUF line, with the hint for
  generating with MLX, and ends with status 0.
\<close>

theorem C10_missing_gguf_file_is_silent:
  assumes steps: "main_mlx_steps12 w args s = (Inr adapter_path, s2)"
    and export: "\<not> mlx_args.no_gguf args"
    and fuse: "subprocess_run w
        [sys_executable w, ''-m'', ''mlx_lm.fuse'',
         ''--model'', mlx_args.model args,
         ''--adapter-path'', adapter_path,
         ''--save-path'', os_path_join w (mlx_args.output_dir args) ''fused_model'',
         ''--export-gguf''] = Inr 0"
    and absent: "\<not> path_exists w
        (os_path_join w (os_path_join w (mlx_args.output_dir args) ''fused_model'')
           ''ggml-model-f16.gguf'')"
  shows
    "fuse_and_export w (mlx_args.model args) adapter_path (mlx_args.output_dir args) True s3 =
       (Inr (os_path_join w (mlx_args.output_dir args) ''fused_model'', None),
        s3\<lparr>stdout := stdout s3 @ map (\<lambda>x. x @ newline)
              [[],
               ''Running: '' @ join_spaces
                 [sys_executable w, ''-m'', ''mlx_lm.fuse'',
                  ''--model'', mlx_args.model args,
                  ''--adapter-path'', adapter_path,
                  ''--save-path'', os_path_join w (mlx_args.output_dir args) ''fused_model'',
                  ''--export-gguf''],
               []],
           effects := effects s3 @
              [Spawn [sys_executable w, ''-m'', ''mlx_lm.fuse'',
                      ''--model'', mlx_args.model args,
                      ''--adapter-path'', adapter_path,
                      ''--save-path'', os_path_join w (mlx_args.output_dir args) ''fused_model'',
                      ''--export-gguf'']]\<rparr>)
     \<and> main_mlx w args s =
       (Inr (),
        s2\<lparr>stdout := stdout s2 @ map (\<lambda>x. x @ newline)
              [[],
               rule_line 40,
               ''Step 3: Fusing adapters and exporting GGUF'',
               rule_line 40,
               [],
               ''Running: '' @ join_spaces
                 [sys_executable w, ''-m'', ''mlx_lm.fuse'',
                  ''--model'', mlx_args.model args,
                  ''--adapter-path'', adapter_path,
                  ''--save-path'', os_path_join w (mlx_args.output_dir args) ''fused_model'',
                  ''--export-gguf''],
               [],
               [],
               rule_line 60,
               ''Training complete!'',
               rule_line 60,
               [],
               ''Adapters:    '' @ abspath w adapter_path,
               ''Fused model: ''
                 @ abspath w (os_path_join w (mlx_args.output_dir args) ''fused_model''),
               [],
               ''Next steps - Use your fine-tuned model:'',
               [],
               ''  Generate with MLX:'',
               ''    mlx_lm.generate --model ''
                 @ os_path_join w (mlx_args.output_dir args) ''fused_model''
                 @ '' --prompt '' @ [CHR 0x27] @ ''Your prompt'' @ [CHR 0x27],
               []],
           effects := effects s2 @
              [Spawn [sys_executable w, ''-m'', ''mlx_lm.fuse'',
                      ''--model'', mlx_args.model args,
                      ''--adapter-path'', adapter_path,
                      ''--save-path'', os_path_join w (mlx_args.output_dir args) ''fused_model'',
                      ''--export-gguf'']]\<rparr>)
     \<and> exit_code (fst (main_mlx w args s)) = 0"
proof -
  have fe: "\<And>s3. fuse_and_export w (mlx_args.model args) adapter_path (mlx_args.output_dir args) True s3 =
       (Inr (os_path_join w (mlx_args.output_dir args) ''fused_model'', None),
        s3\<lparr>stdout := stdout s3 @ map (\<lambda>x. x @ newline)
              [[],
               ''Running: '' @ join_spaces
                 [sys_executable w, ''-m'', ''mlx_lm.fuse'',
                  ''--model'', mlx_args.model args,
                  ''--adapter-path'', adapter_path,
                  ''--save-path'', os_path_join w (mlx_args.output_dir args) ''fused_model'',
                  ''--export-gguf''],
               []],
           effects := effects s3 @
              [Spawn [sys_executable w, ''-m'', ''mlx_lm.fuse'',
                      ''--model'', mlx_args.model args,
                      ''--adapter-path'', adapter_path,
                      ''--save-path'', os_path_join w (mlx_args.output_dir args) ''fused_model'',
                      ''--export-gguf'']]\<rparr>)"
    using fuse absent
    by (simp add: fuse_and_export_def subprocess_run_check_def Let_def prog_simps prints_eq)
  have m: "main_mlx w args s =
       (Inr (),
        s2\<lparr>stdout := stdout s2 @ map (\<lambda>x. x @ newline)
              [[],
               rule_line 40,
               ''Step 3: Fusing adapters and exporting GGUF'',
               rule_line 40,
               [],
               ''Running: '' @ join_spaces
                 [sys_executable w, ''-m'', ''mlx_lm.fuse'',
                  ''--model'', mlx_args.model args,
                  ''--adapter-path'', adapter_path,
                  ''--save-path'', os_path_join w (mlx_args.output_dir args) ''fused_model'',
                  ''--export-gguf''],
               [],
               [],
               rule_line 60,
               ''Training complete!'',
               rule_line 60,
               [],
               ''Adapters:    '' @ abspath w adapter_path,
               ''Fused model: ''
                 @ abspath w (os_path_join w (mlx_args.output_dir args) ''fused_model''),
               [],
               ''Next steps - Use your fine-tuned model:'',
               [],
               ''  Generate with MLX:'',
               ''    mlx_lm.generate --model ''
                 @ os_path_join w (mlx_args.output_dir args) ''fused_model''
                 @ '' --prompt '' @ [CHR 0x27] @ ''Your prompt'' @ [CHR 0x27],
               []],
           effects := effects s2 @
              [Spawn [sys_executable w, ''-m'', ''mlx_lm.fuse'',
                      ''--model'', mlx_args.model args,
                      ''--adapter-path'', adapter_path,
                      ''--save-path'', os_path_join w (mlx_args.output_dir args) ''fused_model'',
                      ''--export-gguf'']]\<rparr>)"
    using steps export
    by (simp add: main_mlx_def fe Let_def prog_simps prints_eq)
  from fe [of s3] m show ?thesis by simp
qed

text \<open>
  C10, witness: the scenario's run on a Mac in which the file is not written.
\<close>

theorem C10_missing_gguf_file_witness:
  "fuse_and_export (mlx_scenario mac_mps False) ''Qwen/Qwen3-0.5B'' ''out/adapters'' ''out'' True
       initial_state =
     (Inr (''out/fused_model'', None),
      \<lparr>stdout = map (\<lambda>x. x @ newline)
         [[],
          ''Running: python -m mlx_lm.fuse --model Qwen/Qwen3-0.5B --adapter-path out/adapters --save-path out/fused_model --export-gguf'',
          []],
       stderr = [],
       effects = [Spawn [''python'', ''-m'', ''mlx_lm.fuse'', ''--model'', ''Qwen/Qwen3-0.5B'',
                         ''--adapter-path'', ''out/adapters'', ''--save-path'', ''out/fused_model'',
                         ''--export-gguf'']]\<rparr>)
   \<and> fst (main_mlx (mlx_scenario mac_mps False) demo_mlx_args initial_state) = Inr ()
   \<and> exit_code (fst (main_mlx (mlx_scenario mac_mps False) demo_mlx_args initial_state)) = 0"
proof -
  let ?w = "mlx_scenario mac_mps False"
  let ?s2 = "snd (main_mlx_steps12 ?w demo_mlx_args initial_state)"
  have "fst (main_mlx_steps12 ?w demo_mlx_args initial_state) = Inr ''out/adapters''"
    by (simp add: main_mlx_steps12_def check_apple_silicon_def prepare_data_def
        prepare_data_load_def run_training_def subprocess_run_check_def to_chat_format_def
        getitem_def scenario_defs prog_simps prints_eq Let_def)
  then have steps: "main_mlx_steps12 ?w demo_mlx_args initial_state = (Inr ''out/adapters'', ?s2)"
    by (simp add: prod_eq_iff)
  have export: "\<not> mlx_args.no_gguf demo_mlx_args"
    by (simp add: demo_mlx_args_def)
  have fuse: "subprocess_run ?w
        [sys_executable ?w, ''-m'', ''mlx_lm.fuse'',
         ''--model'', mlx_args.model demo_mlx_args,
         ''--adapter-path'', ''out/adapters'',
         ''--save-path'', os_path_join ?w (mlx_args.output_dir demo_mlx_args) ''fused_model'',
         ''--export-gguf''] = Inr 0"
    by (simp add: mlx_scenario_def)
  have absent: "\<not> path_exists ?w
        (os_path_join ?w (os_path_join ?w (mlx_args.output_dir demo_mlx_args) ''fused_model'')
           ''ggml-model-f16.gguf'')"
    by (simp add: mlx_scenario_def)
  from C10_missing_gguf_file_is_silent [OF steps export fuse absent, of initial_state]
  show ?thesis
    by (simp add: mlx_scenario_def demo_mlx_args_def initial_state_def)
qed

end
